theory Spec2Isabelle
  imports Main "HOL-Library.Sublist" "HOL-Library.Word"
begin

unbundle bit_operations_syntax

section \<open>Local provisioner mode: strings, templates, files, and the run\<close>

text \<open>
  A shallow embedding of \<^verbatim>\<open>mode/mode_local.go\<close>. Go strings are byte strings and are
  modelled as \<^typ>\<open>string\<close>; Go's \<^verbatim>\<open>int\<close> is modelled at 64 bits where it is computed
  with (the key-scan timeout arithmetic) and as \<^typ>\<open>int\<close> where it is only printed (ports).
  Everything outside the file (the file system, the SSH handles, the play, the external
  command) is an explicit environment: a record of outcomes indexed by the number of the
  call, and a world that is passed along and returned updated.
\<close>

subsection \<open>Library functions of Go used by the file\<close>

text \<open>
  \<^verbatim>\<open>utf8.EncodeRune\<close> for the code points below U+10000: one byte below U+0080, two
  bytes below U+0800, three bytes otherwise.
\<close>

definition EncodeRune :: "nat \<Rightarrow> string" where
  "EncodeRune r =
     (if r < 0x80 then [char_of r]
      else if r < 0x800 then [char_of (0xC0 + r div 0x40), char_of (0x80 + r mod 0x40)]
      else [char_of (0xE0 + r div 0x1000), char_of (0x80 + r div 0x40 mod 0x40),
            char_of (0x80 + r mod 0x40)])"

text \<open>
  The code points for which \<^verbatim>\<open>unicode.IsSpace\<close> holds, which are those of the table
  \<^verbatim>\<open>unicode.White_Space\<close>: tab, line feed, vertical tab, form feed, carriage return,
  space, U+0085 and U+00A0 in Latin-1, and beyond it U+1680, U+2000 to U+200A, U+2028,
  U+2029, U+202F, U+205F and U+3000. Their encodings are \<open>whiteSpace\<close>.
\<close>

definition White_Space :: "nat list" where
  "White_Space =
     [0x09, 0x0A, 0x0B, 0x0C, 0x0D, 0x20, 0x85, 0xA0, 0x1680,
      0x2000, 0x2001, 0x2002, 0x2003, 0x2004, 0x2005, 0x2006, 0x2007, 0x2008, 0x2009, 0x200A,
      0x2028, 0x2029, 0x202F, 0x205F, 0x3000]"

definition whiteSpace :: "string list" where
  "whiteSpace = map EncodeRune White_Space"

text \<open>
  \<^verbatim>\<open>strings.TrimSpace\<close> removes the leading and the trailing white space as Unicode
  defines it: it decodes the bytes as UTF-8, code point by code point, from the left
  (\<^verbatim>\<open>utf8.DecodeRuneInString\<close>) and then from the right
  (\<^verbatim>\<open>utf8.DecodeLastRuneInString\<close>), and stops at the first code point that is not
  white space. Decoding from the left yields a given code point exactly when the string
  starts with its encoding, and decoding from the right exactly when the string ends
  with it (the decoder goes back to the last byte that is not a continuation byte); bytes
  that are not valid UTF-8 decode, one at a time, as U+FFFD, which is not white space.
  So \<open>leadingSpace\<close> is the width of the white-space code point that the string
  starts with, or 0, and \<open>trailingSpace\<close> that of the one it ends with.
\<close>

definition leadingSpace :: "string \<Rightarrow> nat" where
  "leadingSpace s = (case find (\<lambda>e. prefix e s) whiteSpace of None \<Rightarrow> 0 | Some e \<Rightarrow> length e)"

definition trailingSpace :: "string \<Rightarrow> nat" where
  "trailingSpace s = (case find (\<lambda>e. suffix e s) whiteSpace of None \<Rightarrow> 0 | Some e \<Rightarrow> length e)"

text \<open>\<^verbatim>\<open>strings.TrimLeftFunc(s, unicode.IsSpace)\<close>.\<close>

function TrimLeftSpace :: "string \<Rightarrow> string" where
  "TrimLeftSpace s =
     (if leadingSpace s = 0 then s else TrimLeftSpace (drop (leadingSpace s) s))"
  by pat_completeness auto

termination
proof (relation "measure length")
  show "wf (measure length)"
    by simp
next
  fix s :: string
  assume "leadingSpace s \<noteq> 0"
  then obtain e where "find (\<lambda>e. prefix e s) whiteSpace = Some e" and "length e \<noteq> 0"
    by (auto simp: leadingSpace_def split: option.splits)
  then have "prefix e s" and "e \<noteq> []"
    by (auto simp: find_Some_iff)
  then have "s \<noteq> []"
    by auto
  then show "(drop (leadingSpace s) s, s) \<in> measure length"
    using \<open>leadingSpace s \<noteq> 0\<close> by simp
qed

text \<open>\<^verbatim>\<open>strings.TrimRightFunc(s, unicode.IsSpace)\<close>.\<close>

function TrimRightSpace :: "string \<Rightarrow> string" where
  "TrimRightSpace s =
     (if trailingSpace s = 0 then s
      else TrimRightSpace (take (length s - trailingSpace s) s))"
  by pat_completeness auto

termination
proof (relation "measure length")
  show "wf (measure length)"
    by simp
next
  fix s :: string
  assume "trailingSpace s \<noteq> 0"
  then obtain e where "find (\<lambda>e. suffix e s) whiteSpace = Some e" and "length e \<noteq> 0"
    by (auto simp: trailingSpace_def split: option.splits)
  then have "suffix e s" and "e \<noteq> []"
    by (auto simp: find_Some_iff)
  then have "s \<noteq> []"
    by auto
  then show "(take (length s - trailingSpace s) s, s) \<in> measure length"
    using \<open>trailingSpace s \<noteq> 0\<close> by simp
qed

declare TrimLeftSpace.simps [simp del] TrimRightSpace.simps [simp del]

definition TrimSpace :: "string \<Rightarrow> string" where
  "TrimSpace s = TrimRightSpace (TrimLeftSpace s)"

text \<open>\<^verbatim>\<open>strings.Join(elems, sep)\<close>.\<close>

fun Join :: "string list \<Rightarrow> string \<Rightarrow> string" where
  "Join [] sep = []"
| "Join [x] sep = x"
| "Join (x # y # ys) sep = x @ sep @ Join (y # ys) sep"

text \<open>\<^verbatim>\<open>strings.Replace(s, old, new, 1)\<close>: the first occurrence of \<open>old\<close> only.\<close>

fun Replace1 :: "string \<Rightarrow> string \<Rightarrow> string \<Rightarrow> string" where
  "Replace1 [] old new = (if old = [] then new else [])"
| "Replace1 (c # s) old new =
     (if prefix old (c # s) then new @ drop (length old) (c # s)
      else c # Replace1 s old new)"

text \<open>The verb \<^verbatim>\<open>%d\<close> of \<^verbatim>\<open>fmt.Sprintf\<close> and the template's printing of an integer.\<close>

fun showNat :: "nat \<Rightarrow> string" where
  "showNat n = (if n < 10 then [''0123456789'' ! n]
                else showNat (n div 10) @ [''0123456789'' ! (n mod 10)])"

declare showNat.simps [simp del]

definition showInt :: "int \<Rightarrow> string" where
  "showInt i = (if i < 0 then CHR ''-'' # showNat (nat (- i)) else showNat (nat i))"

subsection \<open>Template data (lines 30 to 54)\<close>

text \<open>
  The two host structs share field names in Go; the fields of the WinRM struct carry the
  prefix \<open>Win\<close> here, and the password of the SSH struct is \<open>HostPassword\<close>, so that the
  connection info below can keep \<open>Password\<close>.
\<close>

record inventoryTemplateLocalDataHost =
  Alias :: string
  AnsibleHost :: string
  Username :: string
  HostPassword :: string

record inventoryTemplateLocalData =
  Hosts :: "inventoryTemplateLocalDataHost list"
  Groups :: "string list"

record windowsInventoryTemplateLocalDataHost =
  WinAnsibleHost :: string
  ConnectionType :: string
  WinUsername :: string
  WinPassword :: string
  WinPort :: int
  NTLM :: bool
  WinCacert :: string

record windowsInventoryTemplateLocalData =
  Windows :: "windowsInventoryTemplateLocalDataHost list"

subsection \<open>The templates (lines 56 to 138)\<close>

text \<open>
  The two template constants, read with the rules of \<^verbatim>\<open>text/template\<close>: an action ending
  in \<^verbatim>\<open>-}}\<close> removes all white space that follows it, there is no left trim in either
  template, \<^verbatim>\<open>{{" "}}\<close> prints one space and \<^verbatim>\<open>{{printf "\n"}}\<close> one line feed, values
  are printed as they are (no escaping), a boolean prints as \<^verbatim>\<open>true\<close>.
\<close>

text \<open>Lines 108 to 112 and again 131 to 135: the alias and its optional address.\<close>

definition hostLine :: "inventoryTemplateLocalDataHost \<Rightarrow> string" where
  "hostLine h =
     Alias h
     @ (if AnsibleHost h \<noteq> [] then '' ansible_host='' @ AnsibleHost h else [])
     @ ''\<newline>''"

text \<open>Lines 108 to 124: the body of \<^verbatim>\<open>range .Hosts\<close>.\<close>

definition hostBlock :: "inventoryTemplateLocalDataHost \<Rightarrow> string" where
  "hostBlock h =
     hostLine h
     @ ''[host:vars]\<newline>''
     @ '' ansible_user='' @ Username h @ ''\<newline>''
     @ '' ansible_ssh_common_args='' @ [CHR 0x27] @ ''-o StrictHostKeyChecking=no'' @ [CHR 0x27]
     @ ''\<newline>'' @ ''\<newline>''
     @ (if HostPassword h \<noteq> [] then '' ansible_password='' @ HostPassword h @ ''\<newline>''
        else [])"

text \<open>Lines 129 to 137: the body of \<^verbatim>\<open>range .Groups\<close>.\<close>

definition groupBlock :: "inventoryTemplateLocalDataHost list \<Rightarrow> string \<Rightarrow> string" where
  "groupBlock hs g =
     ''['' @ g @ '']\<newline>'' @ concat (map hostLine hs) @ ''\<newline>\<newline>''"

definition inventoryTemplateLocal :: "inventoryTemplateLocalData \<Rightarrow> string" where
  "inventoryTemplateLocal d =
     ''[host]\<newline>''
     @ concat (map hostBlock (Hosts d))
     @ ''\<newline>\<newline>''
     @ concat (map (groupBlock (Hosts d)) (Groups d))"

text \<open>Lines 59 to 101: the body of \<^verbatim>\<open>range .Windows\<close>.\<close>

definition windowsBlock :: "windowsInventoryTemplateLocalDataHost \<Rightarrow> string" where
  "windowsBlock h =
     (if WinAnsibleHost h \<noteq> [] then '' '' @ WinAnsibleHost h else [])
     @ ''\<newline>''
     @ ''[windows:vars]\<newline>''
     @ (if WinUsername h \<noteq> [] then '' ansible_user='' @ WinUsername h @ ''\<newline>'' else [])
     @ (if WinPassword h \<noteq> [] then '' ansible_password='' @ WinPassword h else [])
     @ (if WinPort h \<noteq> 0 then ''\<newline> ansible_port='' @ showInt (WinPort h) @ ''\<newline>''
        else [])
     @ (if ConnectionType h \<noteq> [] then '' ansible_connection='' @ ConnectionType h @ ''\<newline>''
        else [])
     @ (if NTLM h then ''\<newline> ansible_winrm_transport=true\<newline>'' else [])
     @ (if WinCacert h = []
        then '' ansible_winrm_server_cert_validation=ignore\<newline>'' @ ''\<newline>'' else [])
     @ '' ansible_winrm_read_timeout_sec=900\<newline>''
     @ '' ansible_winrm_operation_timeout_sec=800\<newline>''
     @ ''\<newline>''
     @ (if WinCacert h \<noteq> [] then '' ansible_winrm_ca_trust_path='' @ WinCacert h @ ''\<newline>''
        else [])"

definition windowsInventoryTemplateLocal :: "windowsInventoryTemplateLocalData \<Rightarrow> string" where
  "windowsInventoryTemplateLocal d =
     ''[windows]\<newline>'' @ concat (map windowsBlock (Windows d))"

subsection \<open>Connection info, plays and SSH settings\<close>

text \<open>
  Modelled from the spec: the Connection Descriptor. The struct \<^verbatim>\<open>connectionInfo\<close> is
  declared in another file of the package; the fields are the ones this file reads, with
  the bastion fields and the declared target host key that the bastion and target
  handles are built from.
\<close>

record connectionInfo =
  Type :: string
  Host :: string
  Port :: int
  User :: string
  Password :: string
  PrivateKey :: string
  HostKey :: string
  Cacert :: string
  Ntlm :: bool
  BastionHost :: string
  BastionPort :: int
  BastionUser :: string
  BastionPrivateKey :: string

text \<open>
  Modelled from the spec: the Play, of which this file uses \<^verbatim>\<open>Enabled()\<close>,
  \<^verbatim>\<open>Hosts()\<close>, \<^verbatim>\<open>Groups()\<close>, \<^verbatim>\<open>InventoryFile()\<close> and the setter of the override
  inventory file; once an override is set, \<^verbatim>\<open>InventoryFile()\<close> reports it.
\<close>

record play =
  playEnabled :: bool
  playHosts :: "string list"
  playGroups :: "string list"
  playInventoryFile :: string
  playOverrideInventoryFile :: string

definition InventoryFile :: "play \<Rightarrow> string" where
  "InventoryFile p =
     (if playOverrideInventoryFile p \<noteq> [] then playOverrideInventoryFile p
      else playInventoryFile p)"

definition SetOverrideInventoryFile :: "string \<Rightarrow> play \<Rightarrow> play" where
  "SetOverrideInventoryFile f p = p\<lparr>playOverrideInventoryFile := f\<rparr>"

text \<open>
  Modelled from the spec: the SSH settings \<^verbatim>\<open>{insecure_no_strict_host_key_checking,
  user_known_hosts_file, ssh_keyscan_timeout_seconds}\<close> and the override that force-disables
  strict host-key checking for a run without a compute resource.
\<close>

record AnsibleSSHSettings =
  insecureNoStrictHostKeyChecking :: bool
  overrideStrictHostKeyChecking :: bool
  userKnownHostsFile :: string
  sshKeyscanSeconds :: "64 word"

definition InsecureNoStrictHostKeyChecking :: "AnsibleSSHSettings \<Rightarrow> bool" where
  "InsecureNoStrictHostKeyChecking s =
     (overrideStrictHostKeyChecking s \<or> insecureNoStrictHostKeyChecking s)"

definition SetOverrideStrictHostKeyChecking :: "AnsibleSSHSettings \<Rightarrow> AnsibleSSHSettings" where
  "SetOverrideStrictHostKeyChecking s = s\<lparr>overrideStrictHostKeyChecking := True\<rparr>"

text \<open>The argument bundle of \<^verbatim>\<open>play.ToLocalCommand\<close> (lines 357 to 367).\<close>

record LocalModeAnsibleArgs =
  ArgUsername :: string
  ArgPort :: int
  PemFile :: string
  KnownHostsFile :: string
  BastionKnownHostsFile :: string
  ArgBastionHost :: string
  BastionPemFile :: string
  ArgBastionPort :: int
  BastionUsername :: string

subsection \<open>Errors, events, environment and world\<close>

datatype error =
    Errorf string
  | TempFileError string
  | WriteFileError string
  | ConnectError string
  | ScanError string
  | FetchHostKeyError string
  | ToLocalCommandError string
  | ApplyError string

text \<open>
  The text of an error, as \<^verbatim>\<open>%+v\<close> prints it (line 336). The errors of
  \<^verbatim>\<open>ioutil.TempFile\<close> and \<^verbatim>\<open>ioutil.WriteFile\<close> carry the message of the operating
  system.
\<close>

fun errorText :: "error \<Rightarrow> string" where
  "errorText (Errorf m) = m"
| "errorText (TempFileError m) = m"
| "errorText (WriteFileError m) = m"
| "errorText (ConnectError m) = m"
| "errorText (ScanError m) = m"
| "errorText (FetchHostKeyError m) = m"
| "errorText (ToLocalCommandError m) = m"
| "errorText (ApplyError m) = m"

record fileNode =
  contents :: string
  fileMode :: "32 word"

datatype deferred = DeferRemove string | DeferClose

datatype event =
    EvOutput string
  | EvTempFile string
  | EvWriteFile string
  | EvRemove string
  | EvConnect
  | EvClose
  | EvKeyScan string int "64 word"
  | EvFetchHostKey
  | EvSleep "64 word"
  | EvExecute
  | EvToLocalCommand play LocalModeAnsibleArgs AnsibleSSHSettings
  | EvRunCommand string

text \<open>
  The environment gives the outcome of every call that leaves the file: the n-th call of
  \<^verbatim>\<open>ioutil.TempFile\<close> (the message of its error, or the random part of the name), of
  \<^verbatim>\<open>uuid.NewV4\<close>, of \<^verbatim>\<open>ioutil.WriteFile\<close> (the message of its error, or none), of
  \<^verbatim>\<open>target.fetchHostKey\<close> (an error, or the host key the target reports afterwards)
  and of the external command; the outcome of \<^verbatim>\<open>bastion.connect\<close>
  (an error, or the host key the bastion reports afterwards), of the key scan through
  the bastion, and of \<^verbatim>\<open>play.ToLocalCommand\<close>.
\<close>

record env =
  tempDir :: string
  uuidV4 :: "nat \<Rightarrow> string"
  tempFileOutcome :: "nat \<Rightarrow> string + string"
  writeFileOutcome :: "nat \<Rightarrow> string option"
  connectOutcome :: "error + string"
  scanOutcome :: "error + string"
  fetchOutcome :: "nat \<Rightarrow> error + string"
  toLocalCommand :: "play \<Rightarrow> LocalModeAnsibleArgs \<Rightarrow> AnsibleSSHSettings \<Rightarrow> error + string"
  applyOutcome :: "nat \<Rightarrow> error option"

text \<open>
  The world: the files (contents and permission bits), the trace of events, the number
  of calls made so far of each kind, and the stack of deferred calls of the running
  \<^verbatim>\<open>Run\<close> (newest first).
\<close>

record world =
  files :: "string \<Rightarrow> fileNode option"
  trace :: "event list"
  deferStack :: "deferred list"
  nTempFile :: nat
  nWriteFile :: nat
  nFetch :: nat
  nApply :: nat

definition emit :: "event \<Rightarrow> world \<Rightarrow> world" where
  "emit e w = w\<lparr>trace := trace w @ [e]\<rparr>"

text \<open>\<^verbatim>\<open>v.o.Output\<close>.\<close>

definition Output :: "string \<Rightarrow> world \<Rightarrow> world" where
  "Output m w = emit (EvOutput m) w"

definition deferCall :: "deferred \<Rightarrow> world \<Rightarrow> world" where
  "deferCall d w = w\<lparr>deferStack := d # deferStack w\<rparr>"

text \<open>
  \<^verbatim>\<open>ioutil.TempFile(dir, prefix)\<close> creates a file that did not exist before
  (\<^verbatim>\<open>O_CREATE|O_EXCL\<close>), empty, with mode 0600 (384), named by the directory, the prefix
  and a random part. A name that is taken counts as a failed call, with the error that
  Go returns when it gives up looking for a free name.
\<close>

definition TempFile :: "env \<Rightarrow> string \<Rightarrow> world \<Rightarrow> (error + string) \<times> world" where
  "TempFile E pfx w =
     (let w1 = w\<lparr>nTempFile := Suc (nTempFile w)\<rparr> in
      case tempFileOutcome E (nTempFile w) of
        Inl msg \<Rightarrow> (Inl (TempFileError msg), w1)
      | Inr rnd \<Rightarrow>
          (let name = tempDir E @ ''/'' @ pfx @ rnd in
           if files w name \<noteq> None
           then (Inl (TempFileError (''open '' @ name @ '': file exists'')), w1)
           else (Inr name,
                 emit (EvTempFile name)
                   (w1\<lparr>files := (files w)(name \<mapsto> \<lparr>contents = [], fileMode = 384\<rparr>)\<rparr>))))"

text \<open>
  \<^verbatim>\<open>ioutil.WriteFile(name, data, perm)\<close> opens with \<^verbatim>\<open>O_WRONLY|O_CREATE|O_TRUNC\<close>: a file
  that does not exist is created with \<open>perm\<close>; a file that exists is truncated and
  written, and its permission bits stay as they are. A failed call leaves the files as
  they were.
\<close>

definition WriteFile :: "env \<Rightarrow> string \<Rightarrow> string \<Rightarrow> 32 word \<Rightarrow> world \<Rightarrow> error option \<times> world" where
  "WriteFile E name data p w =
     (let w1 = w\<lparr>nWriteFile := Suc (nWriteFile w)\<rparr> in
      case writeFileOutcome E (nWriteFile w) of
        None \<Rightarrow>
          (None,
           emit (EvWriteFile name)
             (w1\<lparr>files := (files w)(name \<mapsto>
                    (case files w name of
                       None \<Rightarrow> \<lparr>contents = data, fileMode = p\<rparr>
                     | Some f \<Rightarrow> f\<lparr>contents := data\<rparr>))\<rparr>))
      | Some msg \<Rightarrow> (Some (WriteFileError msg), w1))"

text \<open>\<^verbatim>\<open>os.Remove\<close>, whose error the file ignores.\<close>

definition Remove :: "string \<Rightarrow> world \<Rightarrow> world" where
  "Remove name w = emit (EvRemove name) (w\<lparr>files := (files w)(name := None)\<rparr>)"

subsection \<open>Writing the known hosts and the keys (lines 382 to 417)\<close>

definition knownHostsFileContents :: "string list \<Rightarrow> string" where
  "knownHostsFileContents knownHosts = Join (map TrimSpace knownHosts) ''\<newline>''"

definition writeKnownHosts :: "env \<Rightarrow> string list \<Rightarrow> world \<Rightarrow> (error + string) \<times> world" where
  "writeKnownHosts E knownHosts w =
     (case TempFile E (uuidV4 E (nTempFile w)) w of
        (Inl err, w1) \<Rightarrow> (Inl err, w1)
      | (Inr name, w1) \<Rightarrow>
          (let w2 = Output (''Write known hosts '' @ knownHostsFileContents knownHosts
                            @ ''\<newline>'') w1 in
           case WriteFile E name (knownHostsFileContents knownHosts @ ''\<newline>'') 420 w2 of
             (Some err, w3) \<Rightarrow> (Inl err, w3)
           | (None, w3) \<Rightarrow> (Inr name, w3)))"

definition writePem :: "env \<Rightarrow> string \<Rightarrow> world \<Rightarrow> (error + string) \<times> world" where
  "writePem E pk w =
     (if pk \<noteq> [] then
        (case TempFile E (uuidV4 E (nTempFile w)) w of
           (Inl err, w1) \<Rightarrow> (Inl err, w1)
         | (Inr name, w1) \<Rightarrow>
             (let w2 = Output (''Writing temprary PEM to '' @ [CHR 0x27] @ name @ [CHR 0x27]
                               @ ''...'') w1 in
              case WriteFile E name pk 256 w2 of
                (Some err, w3) \<Rightarrow> (Inl err, w3)
              | (None, w3) \<Rightarrow> (Inr name, Output ''Ansible inventory written.'' w3)))
      else (Inr [], w))"

subsection \<open>Writing the inventory (lines 419 to 513)\<close>

text \<open>Lines 434 to 472: the hosts of the SSH template.\<close>

definition sshHosts :: "connectionInfo \<Rightarrow> string list \<Rightarrow> inventoryTemplateLocalDataHost list" where
  "sshHosts ci hs =
     (if Host ci \<noteq> [] then
        (if length hs > 0 then
           (if hs ! 0 \<noteq> [] then
              [\<lparr>Alias = hs ! 0, AnsibleHost = Host ci, Username = User ci,
                HostPassword = Password ci\<rparr>]
            else
              [\<lparr>Alias = Host ci, AnsibleHost = [], Username = User ci,
                HostPassword = Password ci\<rparr>])
         else
           [\<lparr>Alias = Host ci, AnsibleHost = [], Username = User ci,
             HostPassword = Password ci\<rparr>])
      else
        map (\<lambda>h. \<lparr>Alias = h, AnsibleHost = [], Username = User ci, HostPassword = Password ci\<rparr>)
          (filter (\<lambda>h. h \<noteq> []) hs))"

text \<open>Lines 473 to 483: the host of the WinRM template.\<close>

definition windowsHosts :: "connectionInfo \<Rightarrow> windowsInventoryTemplateLocalDataHost list" where
  "windowsHosts ci =
     [\<lparr>WinAnsibleHost = Host ci, ConnectionType = Type ci, WinUsername = User ci,
       WinPassword = Password ci, WinPort = Port ci, NTLM = Ntlm ci, WinCacert = Cacert ci\<rparr>]"

text \<open>
  \<^verbatim>\<open>t.Execute(&buf, data)\<close>: the buffer receives the rendering. Both templates are
  constants that parse, the data are structs of strings, an integer and a boolean, every
  comparison in the templates is between values of one kind, and a \<^verbatim>\<open>bytes.Buffer\<close>
  accepts every write: the execution returns no error.
\<close>

definition Execute :: "string \<Rightarrow> world \<Rightarrow> (string \<times> error option) \<times> world" where
  "Execute rendering w = ((rendering, None), emit EvExecute w)"

text \<open>
  Lines 484 to 497. An error of \<^verbatim>\<open>Execute\<close> would be given to \<^verbatim>\<open>fmt.Errorf\<close>, whose
  result is dropped: nothing is printed and nothing is returned.
\<close>

definition renderInventory :: "connectionInfo \<Rightarrow> play \<Rightarrow> world \<Rightarrow> string \<times> world" where
  "renderInventory ci p w =
     (if Type ci = ''ssh'' then
        (case Execute (inventoryTemplateLocal
                \<lparr>Hosts = sshHosts ci (playHosts p), Groups = playGroups p\<rparr>) w of
           ((buf, err), w1) \<Rightarrow> (buf, w1))
      else if Type ci = ''winrm'' then
        (case Execute (windowsInventoryTemplateLocal \<lparr>Windows = windowsHosts ci\<rparr>) w of
           ((buf, err), w1) \<Rightarrow> (buf, w1))
      else ([], w))"

definition writeInventory :: "env \<Rightarrow> connectionInfo \<Rightarrow> play \<Rightarrow> world \<Rightarrow> (error + string) \<times> world" where
  "writeInventory E ci p w =
     (if InventoryFile p = [] then
        (case renderInventory ci p w of
           (buf, w1) \<Rightarrow>
             (case TempFile E ''temporary-ansible-inventory'' w1 of
                (Inl err, w2) \<Rightarrow> (Inl err, w2)
              | (Inr name, w2) \<Rightarrow>
                  (let w3 = Output (''Writing temporary ansible inventory to '' @ [CHR 0x27]
                                    @ name @ [CHR 0x27] @ ''...'') w2 in
                   case WriteFile E name buf 420 w3 of
                     (Some err, w4) \<Rightarrow> (Inl err, w4)
                   | (None, w4) \<Rightarrow> (Inr name, Output ''Ansible inventory written.'' w4))))
      else (Inr (InventoryFile p), w))"

subsection \<open>The handles of the bastion and of the target\<close>

text \<open>
  Modelled from the spec: the handles are built from the connection info; \<^verbatim>\<open>inUse()\<close>
  reports whether a bastion was configured; the target's host, port, declared host key
  and password are those of the connection info. Their network calls are outcomes of
  the environment.
\<close>

definition ComputeResource :: "connectionInfo \<Rightarrow> bool" where
  "ComputeResource ci = (if Host ci \<noteq> [] then True else False)"

definition bastionInUse :: "connectionInfo \<Rightarrow> bool" where
  "bastionInUse ci = (BastionHost ci \<noteq> [])"

definition bastionConnect :: "env \<Rightarrow> world \<Rightarrow> (error + string) \<times> world" where
  "bastionConnect E w = (connectOutcome E, emit EvConnect w)"

definition bastionKeyScan :: "env \<Rightarrow> string \<Rightarrow> int \<Rightarrow> 64 word \<Rightarrow> world \<Rightarrow> (error + string) \<times> world" where
  "bastionKeyScan E h p secs w = (scanOutcome E, emit (EvKeyScan h p secs) w)"

definition fetchHostKey :: "env \<Rightarrow> world \<Rightarrow> (error + string) \<times> world" where
  "fetchHostKey E w = (fetchOutcome E (nFetch w), emit EvFetchHostKey (w\<lparr>nFetch := Suc (nFetch w)\<rparr>))"

text \<open>\<^verbatim>\<open>time.Sleep\<close>, in milliseconds.\<close>

definition Sleep :: "64 word \<Rightarrow> world \<Rightarrow> world" where
  "Sleep ms w = emit (EvSleep ms) w"

text \<open>\<^verbatim>\<open>runCommand\<close> (lines 515 to 542) hands the command to the local-exec provisioner.\<close>

definition runCommand :: "env \<Rightarrow> string \<Rightarrow> world \<Rightarrow> error option \<times> world" where
  "runCommand E command w =
     (applyOutcome E (nApply w), emit (EvRunCommand command) (w\<lparr>nApply := Suc (nApply w)\<rparr>))"

definition userAtHostPort :: "string \<Rightarrow> string \<Rightarrow> int \<Rightarrow> string" where
  "userAtHostPort u h p = u @ ''@'' @ h @ '':'' @ showInt p"

definition quoted :: "string \<Rightarrow> string" where
  "quoted x = [CHR 0x27] @ x @ [CHR 0x27]"

subsection \<open>Direct discovery of the host key (lines 276 to 301)\<close>

definition intervalMs :: "64 word" where
  "intervalMs = 5000"

text \<open>
  The loop of lines 284 to 298. Go's \<^verbatim>\<open>int\<close> wraps around; the comparison is signed.
  The loop has no bound of its own, so the function is partial: \<open>None\<close> is a loop that
  never returns.
\<close>

partial_function (option) fetchLoop ::
  "env \<Rightarrow> connectionInfo \<Rightarrow> AnsibleSSHSettings \<Rightarrow> 64 word \<Rightarrow> 64 word \<Rightarrow> world
   \<Rightarrow> ((error + string) \<times> world) option" where
  "fetchLoop E ci s timeoutMs timeSpentMs w =
     (case fetchHostKey E w of
        (Inl err, w1) \<Rightarrow>
          (let w2 = Output (''host key or password for '' @ quoted (Host ci)
                            @ '' not received yet; retrying...'') w1;
               w3 = Sleep intervalMs w2;
               timeSpentMs' = timeSpentMs + intervalMs in
           if timeoutMs <s timeSpentMs' then
             Some (Inl err,
                   Output (''host key or password for '' @ quoted (Host ci)
                           @ '' not received within '' @ showInt (sint (sshKeyscanSeconds s))
                           @ '' seconds'') w3)
           else fetchLoop E ci s timeoutMs timeSpentMs' w3)
      | (Inr key, w1) \<Rightarrow> Some (Inr key, w1))"

declare fetchLoop.simps [code]

definition discoverHostKey ::
  "env \<Rightarrow> connectionInfo \<Rightarrow> AnsibleSSHSettings \<Rightarrow> world \<Rightarrow> ((error + string) \<times> world) option" where
  "discoverHostKey E ci s w =
     (let w0 = Output (''host key or password for '' @ quoted (Host ci) @ '' not passed'') w;
          timeoutMs = sshKeyscanSeconds s * 1000 in
      case fetchLoop E ci s timeoutMs 0 w0 of
        None \<Rightarrow> None
      | Some (Inl err, w1) \<Rightarrow> Some (Inl err, w1)
      | Some (Inr key, w1) \<Rightarrow>
          (if key = [] then
             Some (Inl (Errorf (''expected to receive the host key or password for ''
                                @ quoted (Host ci) @ '', but no host key arrived'')), w1)
           else Some (Inr key, w1)))"

subsection \<open>The run (lines 173 to 380)\<close>

text \<open>Lines 178 to 182.\<close>

fun validatePlays :: "play list \<Rightarrow> error option" where
  "validatePlays [] = None"
| "validatePlays (p # ps) =
     (if length (playHosts p) = 0 \<and> InventoryFile p = [] then
        Some (Errorf ''Hosts or Inventory file must be specified on each plays attribute when using null_resource'')
      else validatePlays ps)"

text \<open>Lines 187 to 195, and the same for the target key and the CA certificate.\<close>

definition stagePem :: "env \<Rightarrow> string \<Rightarrow> world \<Rightarrow> (error + string) \<times> world" where
  "stagePem E pk w =
     (if pk \<noteq> [] then
        (case writePem E pk w of
           (Inl err, w1) \<Rightarrow> (Inl err, w1)
         | (Inr pemFile, w1) \<Rightarrow> (Inr pemFile, deferCall (DeferRemove pemFile) w1))
      else (Inr [], w))"

text \<open>Lines 187 to 215.\<close>

definition stageKeys ::
  "env \<Rightarrow> connectionInfo \<Rightarrow> world \<Rightarrow> (error + string \<times> string \<times> string) \<times> world" where
  "stageKeys E ci w =
     (case stagePem E (BastionPrivateKey ci) w of
        (Inl err, w1) \<Rightarrow> (Inl err, w1)
      | (Inr bastionPemFile, w1) \<Rightarrow>
          (case stagePem E (PrivateKey ci) w1 of
             (Inl err, w2) \<Rightarrow> (Inl err, w2)
           | (Inr targetPemFile, w2) \<Rightarrow>
               (case stagePem E (Cacert ci) w2 of
                  (Inl err, w3) \<Rightarrow> (Inl err, w3)
                | (Inr cacertPemFile, w3) \<Rightarrow>
                    (Inr (bastionPemFile, targetPemFile, cacertPemFile), w3))))"

text \<open>Lines 232 to 268: the target's known hosts when a bastion is in use.\<close>

definition trustThroughBastion ::
  "env \<Rightarrow> connectionInfo \<Rightarrow> AnsibleSSHSettings \<Rightarrow> world \<Rightarrow> (error + string list) \<times> world" where
  "trustThroughBastion E ci s w =
     (if \<not> InsecureNoStrictHostKeyChecking s then
        (if userKnownHostsFile s = [] then
           (if HostKey ci = [] then
              (let w1 = Output (''Host key not given, executing ssh-keyscan on bastion: ''
                         @ userAtHostPort (BastionUser ci) (BastionHost ci) (BastionPort ci)) w in
               case bastionKeyScan E (Host ci) (Port ci) (sshKeyscanSeconds s) w1 of
                 (Inl err, w2) \<Rightarrow> (Inl err, w2)
               | (Inr targetKnownHosts, w2) \<Rightarrow> (Inr [targetKnownHosts], w2))
            else (Inr [Host ci @ '' '' @ HostKey ci], w))
         else
           (Inr [],
            Output (''bastion '' @ userAtHostPort (BastionUser ci) (BastionHost ci) (BastionPort ci)
                    @ '' will use '' @ quoted (userKnownHostsFile s)
                    @ '' as a user known hosts file'') w))
      else
        (Inr [],
         Output (''target host StrictHostKeyChecking=no, not verifying host keys on bastion: ''
                 @ userAtHostPort (BastionUser ci) (BastionHost ci) (BastionPort ci)) w))"

text \<open>Lines 271 to 313: the target's known hosts without a bastion.\<close>

definition trustDirect ::
  "env \<Rightarrow> connectionInfo \<Rightarrow> AnsibleSSHSettings \<Rightarrow> world \<Rightarrow> ((error + string list) \<times> world) option" where
  "trustDirect E ci s w =
     (if \<not> InsecureNoStrictHostKeyChecking s then
        (let w1 = Output ''InsecureNoStrictHostKeyChecking false'' w in
         if ComputeResource ci then
           (if userKnownHostsFile s = [] then
              (if HostKey ci = [] \<and> Password ci = [] then
                 (case discoverHostKey E ci s w1 of
                    None \<Rightarrow> None
                  | Some (Inl err, w2) \<Rightarrow> Some (Inl err, w2)
                  | Some (Inr key, w2) \<Rightarrow> Some (Inr [Host ci @ '' '' @ key], w2))
               else Some (Inr [Host ci @ '' '' @ HostKey ci], w1))
            else
              Some (Inr [],
                    Output (''using '' @ quoted (userKnownHostsFile s)
                            @ '' as a known hosts file'') w1))
         else Some (Inr [], Output ''null_resource, not verifying host keys'' w1))
      else
        Some (Inr [],
              Output ''StrictHostKeyChecking=no specified or set for null_resource, not verifying host keys'' w))"

text \<open>
  Lines 222 to 314: the known hosts of the target and of the bastion. The bastion branch
  comes first and does not look at the connection type.
\<close>

definition establishTrust ::
  "env \<Rightarrow> connectionInfo \<Rightarrow> AnsibleSSHSettings \<Rightarrow> world
   \<Rightarrow> ((error + string list \<times> string list) \<times> world) option" where
  "establishTrust E ci s w =
     (if bastionInUse ci then
        (case bastionConnect E w of
           (Inl err, w1) \<Rightarrow> Some (Inl err, w1)
         | (Inr bastionHostKey, w1) \<Rightarrow>
             (case trustThroughBastion E ci s (deferCall DeferClose w1) of
                (Inl err, w2) \<Rightarrow> Some (Inl err, w2)
              | (Inr knownHostsTarget, w2) \<Rightarrow>
                  Some (Inr (knownHostsTarget, [BastionHost ci @ '' '' @ bastionHostKey]), w2)))
      else if Type ci \<noteq> ''winrm'' then
        (case trustDirect E ci s w of
           None \<Rightarrow> None
         | Some (Inl err, w1) \<Rightarrow> Some (Inl err, w1)
         | Some (Inr knownHostsTarget, w1) \<Rightarrow> Some (Inr (knownHostsTarget, []), w1))
      else Some (Inr ([], []), w))"

text \<open>Lines 316 to 326.\<close>

definition stageKnownHosts ::
  "env \<Rightarrow> string list \<Rightarrow> string list \<Rightarrow> world \<Rightarrow> (error + string \<times> string) \<times> world" where
  "stageKnownHosts E knownHostsBastion knownHostsTarget w =
     (case writeKnownHosts E knownHostsBastion w of
        (Inl err, w1) \<Rightarrow> (Inl err, w1)
      | (Inr knownHostsFileBastion, w1) \<Rightarrow>
          (case writeKnownHosts E knownHostsTarget
                  (deferCall (DeferRemove knownHostsFileBastion) w1) of
             (Inl err, w2) \<Rightarrow> (Inl err, w2)
           | (Inr knownHostsFileTarget, w2) \<Rightarrow>
               (Inr (knownHostsFileBastion, knownHostsFileTarget),
                deferCall (DeferRemove knownHostsFileTarget) w2)))"

definition moduleCommand :: string where
  "moduleCommand = ''ansible all -i in -m wait_for_connection -c 'timeout=600'' @ [CHR 0x27]"

text \<open>Lines 334 to 376: one enabled play.\<close>

definition runPlay ::
  "env \<Rightarrow> connectionInfo \<Rightarrow> AnsibleSSHSettings \<Rightarrow> LocalModeAnsibleArgs \<Rightarrow> play \<Rightarrow> world
   \<Rightarrow> error option \<times> world" where
  "runPlay E ci s args p w =
     (case writeInventory E ci p w of
        (Inl err, w1) \<Rightarrow> (Some err, Output (errorText err) w1)
      | (Inr inventoryFile, w1) \<Rightarrow>
          (let p1 = (if inventoryFile \<noteq> InventoryFile p
                     then SetOverrideInventoryFile inventoryFile p else p);
               w2 = (if inventoryFile \<noteq> InventoryFile p
                     then deferCall (DeferRemove (InventoryFile p1)) w1 else w1) in
           case (if Type ci = ''winrm'' then
                   (let executeCommand = Replace1 moduleCommand ''in'' inventoryFile in
                    runCommand E executeCommand
                      (Output (''running module to verify windows machine availble: ''
                               @ executeCommand) w2))
                 else (None, w2)) of
             (Some err, w3) \<Rightarrow> (Some err, w3)
           | (None, w3) \<Rightarrow>
               (case toLocalCommand E p1 args s of
                  Inl err \<Rightarrow> (Some err, emit (EvToLocalCommand p1 args s) w3)
                | Inr command \<Rightarrow>
                    runCommand E command
                      (Output (''running local command: '' @ command)
                         (emit (EvToLocalCommand p1 args s) w3)))))"

text \<open>Lines 328 to 377.\<close>

fun runPlays ::
  "env \<Rightarrow> connectionInfo \<Rightarrow> AnsibleSSHSettings \<Rightarrow> LocalModeAnsibleArgs \<Rightarrow> play list \<Rightarrow> world
   \<Rightarrow> error option \<times> world" where
  "runPlays E ci s args [] w = (None, w)"
| "runPlays E ci s args (p # ps) w =
     (if \<not> playEnabled p then runPlays E ci s args ps w
      else (case runPlay E ci s args p w of
              (Some err, w1) \<Rightarrow> (Some err, w1)
            | (None, w1) \<Rightarrow> runPlays E ci s args ps w1))"

text \<open>The deferred calls run when \<^verbatim>\<open>Run\<close> returns, the newest first.\<close>

fun runDeferred :: "deferred list \<Rightarrow> world \<Rightarrow> world" where
  "runDeferred [] w = w"
| "runDeferred (DeferRemove name # ds) w = runDeferred ds (Remove name w)"
| "runDeferred (DeferClose # ds) w = runDeferred ds (emit EvClose w)"

definition returning :: "error option \<times> world \<Rightarrow> error option \<times> world" where
  "returning rw = (fst rw, runDeferred (deferStack (snd rw)) ((snd rw)\<lparr>deferStack := []\<rparr>))"

text \<open>Lines 187 to 379, with the settings as they are after line 185.\<close>

definition provision ::
  "env \<Rightarrow> connectionInfo \<Rightarrow> play list \<Rightarrow> AnsibleSSHSettings \<Rightarrow> world
   \<Rightarrow> (error option \<times> world) option" where
  "provision E ci plays s w =
     (case stageKeys E ci w of
        (Inl err, w1) \<Rightarrow> Some (Some err, w1)
      | (Inr (bastionPemFile, targetPemFile, cacertPemFile), w1) \<Rightarrow>
          (let ci1 = ci\<lparr>Cacert := cacertPemFile\<rparr> in
           case establishTrust E ci1 s w1 of
             None \<Rightarrow> None
           | Some (Inl err, w2) \<Rightarrow> Some (Some err, w2)
           | Some (Inr (knownHostsTarget, knownHostsBastion), w2) \<Rightarrow>
               (case stageKnownHosts E knownHostsBastion knownHostsTarget w2 of
                  (Inl err, w3) \<Rightarrow> Some (Some err, w3)
                | (Inr (knownHostsFileBastion, knownHostsFileTarget), w3) \<Rightarrow>
                    Some (runPlays E ci1 s
                            \<lparr>ArgUsername = User ci1, ArgPort = Port ci1,
                             PemFile = targetPemFile,
                             KnownHostsFile = knownHostsFileTarget,
                             BastionKnownHostsFile = knownHostsFileBastion,
                             ArgBastionHost = BastionHost ci1,
                             BastionPemFile = bastionPemFile,
                             ArgBastionPort = BastionPort ci1,
                             BastionUsername = BastionUser ci1\<rparr>
                            plays w3))))"

text \<open>
  The body of \<^verbatim>\<open>Run\<close> up to its return statement: lines 176 to 185, then the rest.
\<close>

definition RunBody ::
  "env \<Rightarrow> connectionInfo \<Rightarrow> play list \<Rightarrow> AnsibleSSHSettings \<Rightarrow> world
   \<Rightarrow> (error option \<times> world) option" where
  "RunBody E ci plays s w =
     (if \<not> ComputeResource ci then
        (case validatePlays plays of
           Some err \<Rightarrow> Some (Some err, w)
         | None \<Rightarrow> provision E ci plays (SetOverrideStrictHostKeyChecking s) w)
      else provision E ci plays s w)"

definition Run ::
  "env \<Rightarrow> connectionInfo \<Rightarrow> play list \<Rightarrow> AnsibleSSHSettings \<Rightarrow> world
   \<Rightarrow> (error option \<times> world) option" where
  "Run E ci plays s w = map_option returning (RunBody E ci plays s (w\<lparr>deferStack := []\<rparr>))"

subsection \<open>Notions used in the statements\<close>

text \<open>Permission bits that give nothing to the group and to others.\<close>

definition deniesNonOwner :: "32 word \<Rightarrow> bool" where
  "deniesNonOwner m = (m AND 63 = 0)"


text \<open>
  Events of a run in which strict host-key checking is off: no handshake for the host
  key, no key scan, and every command is built from settings that report the checking
  as disabled.
\<close>

fun strictCheckingOff :: "event \<Rightarrow> bool" where
  "strictCheckingOff EvFetchHostKey = False"
| "strictCheckingOff (EvKeyScan h p secs) = False"
| "strictCheckingOff (EvToLocalCommand p args s) = InsecureNoStrictHostKeyChecking s"
| "strictCheckingOff e = True"

text \<open>Events that any of the predicates on events below lets pass.\<close>

fun plainEvent :: "event \<Rightarrow> bool" where
  "plainEvent EvFetchHostKey = False"
| "plainEvent (EvKeyScan h p secs) = False"
| "plainEvent (EvToLocalCommand p args s) = False"
| "plainEvent EvConnect = False"
| "plainEvent (EvSleep ms) = False"
| "plainEvent e = True"

text \<open>A run keeps the trace it finds and adds only events that pass \<open>Q\<close>.\<close>

definition keeps :: "(event \<Rightarrow> bool) \<Rightarrow> world \<Rightarrow> world \<Rightarrow> bool" where
  "keeps Q w w' = (\<exists>evs. trace w' = trace w @ evs \<and> list_all Q evs)"

text \<open>
  Events of a run whose commands are all built from the settings \<open>s'\<close>; the event that
  builds the command of the play \<open>p\<close> from the settings \<open>s\<close> (the play as declared, or
  with the inventory file of line 342 set); and the errors of the file system.
\<close>

fun builtFrom :: "AnsibleSSHSettings \<Rightarrow> event \<Rightarrow> bool" where
  "builtFrom s' (EvToLocalCommand p args s) = (s = s')"
| "builtFrom s' e = True"

fun commandOf :: "AnsibleSSHSettings \<Rightarrow> play \<Rightarrow> event \<Rightarrow> bool" where
  "commandOf s p (EvToLocalCommand p1 args s1) =
     (s1 = s \<and> p1\<lparr>playOverrideInventoryFile := playOverrideInventoryFile p\<rparr> = p)"
| "commandOf s p e = False"

fun fileError :: "error \<Rightarrow> bool" where
  "fileError (TempFileError m) = True"
| "fileError (WriteFileError m) = True"
| "fileError e = False"

text \<open>
  The two directives of the WinRM inventory about the server certificate, and strings
  that contain the name of neither.
\<close>

definition ignoreDirective :: string where
  "ignoreDirective = ''ansible_winrm_server_cert_validation=ignore''"

definition caTrustDirective :: string where
  "caTrustDirective = ''ansible_winrm_ca_trust_path''"

definition directiveFree :: "string \<Rightarrow> bool" where
  "directiveFree x =
     (\<not> sublist ''ansible_winrm_server_cert_validation'' x
      \<and> \<not> sublist ''ansible_winrm_ca_trust_path'' x)"

text \<open>Events on the network.\<close>

fun networkEvent :: "event \<Rightarrow> bool" where
  "networkEvent EvConnect = True"
| "networkEvent EvClose = True"
| "networkEvent (EvKeyScan h p secs) = True"
| "networkEvent EvFetchHostKey = True"
| "networkEvent e = False"

subsection \<open>Example inputs\<close>

text \<open>
  An environment in which the file system and the commands work and the target refuses
  every handshake, and a world with no files.
\<close>

definition exEnv :: env where
  "exEnv = \<lparr>tempDir = ''/tmp'', uuidV4 = (\<lambda>n. ''u''), tempFileOutcome = (\<lambda>n. Inr (showNat n)),
     writeFileOutcome = (\<lambda>n. None),
     connectOutcome = Inr ''ssh-rsa BBBB'', scanOutcome = Inr ''10.0.0.9 ssh-rsa AAAA'',
     fetchOutcome = (\<lambda>n. Inl (FetchHostKeyError ''dial tcp: connection refused'')),
     toLocalCommand = (\<lambda>p a s. Inr ''ansible-playbook''), applyOutcome = (\<lambda>n. None)\<rparr>"

definition exWorld :: world where
  "exWorld = \<lparr>files = (\<lambda>name. None), trace = [], deferStack = [], nTempFile = 0, nWriteFile = 0,
     nFetch = 0, nApply = 0\<rparr>"







text \<open>
  A compute resource reached over SSH with a private key and no declared host key, the
  settings with a key-scan ceiling of 10 seconds, one play, settings whose ceiling in
  milliseconds wraps around to 9223372036854775800, and a target that answers the first
  handshake with no host key.
\<close>

definition exCi :: connectionInfo where
  "exCi = \<lparr>Type = ''ssh'', Host = ''10.0.0.5'', Port = 22, User = ''root'', Password = [],
     PrivateKey = ''KEY'', HostKey = [], Cacert = [], Ntlm = False, BastionHost = [],
     BastionPort = 22, BastionUser = [], BastionPrivateKey = []\<rparr>"

definition exSettings :: AnsibleSSHSettings where
  "exSettings = \<lparr>insecureNoStrictHostKeyChecking = False, overrideStrictHostKeyChecking = False,
     userKnownHostsFile = [], sshKeyscanSeconds = 10\<rparr>"

definition exPlay :: play where
  "exPlay = \<lparr>playEnabled = True, playHosts = [''web1''], playGroups = [],
     playInventoryFile = [], playOverrideInventoryFile = []\<rparr>"



text \<open>
  A run without a compute resource, and a play that declares neither hosts nor an
  inventory file.
\<close>

definition nullCi :: connectionInfo where
  "nullCi = exCi\<lparr>Host := []\<rparr>"

definition emptyPlay :: play where
  "emptyPlay = exPlay\<lparr>playHosts := []\<rparr>"

text \<open>
  A WinRM connection with a CA certificate path whose password carries a line feed and
  the text of a directive; and one without a CA certificate.
\<close>

definition winrmCi :: connectionInfo where
  "winrmCi = \<lparr>Type = ''winrm'', Host = ''10.0.0.9'', Port = 5986, User = ''Administrator'',
     Password = ''p@ss'', PrivateKey = [], HostKey = [], Cacert = [], Ntlm = False,
     BastionHost = [], BastionPort = 22, BastionUser = [], BastionPrivateKey = []\<rparr>"

definition injectingCi :: connectionInfo where
  "injectingCi = winrmCi\<lparr>Cacert := ''/tmp/ca.pem'',
     Password := ''p\<newline> ansible_winrm_server_cert_validation=ignore''\<rparr>"

text \<open>An environment in which files can be created and every write fails.\<close>

definition fullDiskEnv :: env where
  "fullDiskEnv = exEnv\<lparr>writeFileOutcome := (\<lambda>n. Some ''no space left on device'')\<rparr>"

text \<open>A WinRM connection with a bastion configured.\<close>

definition winrmBastionCi :: connectionInfo where
  "winrmBastionCi = winrmCi\<lparr>BastionHost := ''bastion.example'', BastionUser := ''jump''\<rparr>"

section \<open>Properties\<close>

text \<open>The definitions that evaluate a run at a concrete input.\<close>

lemmas eval_defs =
  writePem_def writeKnownHosts_def writeInventory_def renderInventory_def Execute_def
  TempFile_def WriteFile_def Remove_def emit_def Output_def deferCall_def Let_def
  stagePem_def stageKeys_def stageKnownHosts_def runPlay_def runCommand_def returning_def
  Run_def RunBody_def provision_def establishTrust_def trustThroughBastion_def trustDirect_def
  bastionConnect_def bastionKeyScan_def bastionInUse_def ComputeResource_def
  InsecureNoStrictHostKeyChecking_def InventoryFile_def SetOverrideInventoryFile_def
  knownHostsFileContents_def quoted_def userAtHostPort_def showNat.simps showInt_def

subsection \<open>Temporary files\<close>

lemma TempFile_Inr:
  "TempFile E pfx w = (Inr name, w') \<longleftrightarrow>
     (\<exists>rnd. tempFileOutcome E (nTempFile w) = Inr rnd \<and> name = tempDir E @ ''/'' @ pfx @ rnd)
     \<and> files w name = None
     \<and> w' = emit (EvTempFile name)
                (w\<lparr>nTempFile := Suc (nTempFile w),
                   files := (files w)(name \<mapsto> \<lparr>contents = [], fileMode = 384\<rparr>)\<rparr>)"
  by (auto simp: TempFile_def Let_def split: sum.splits if_splits)

lemma TempFile_Inl:
  "TempFile E pfx w = (Inl err, w') \<longleftrightarrow>
     w' = w\<lparr>nTempFile := Suc (nTempFile w)\<rparr>
     \<and> (case tempFileOutcome E (nTempFile w) of
           Inl msg \<Rightarrow> err = TempFileError msg
         | Inr rnd \<Rightarrow> files w (tempDir E @ ''/'' @ pfx @ rnd) \<noteq> None
             \<and> err = TempFileError (''open '' @ tempDir E @ ''/'' @ pfx @ rnd @ '': file exists''))"
  by (auto simp: TempFile_def Let_def split: sum.splits if_splits)

lemma WriteFile_None:
  "WriteFile E name d p w = (None, w') \<longleftrightarrow>
     writeFileOutcome E (nWriteFile w) = None
     \<and> w' = emit (EvWriteFile name)
           (w\<lparr>nWriteFile := Suc (nWriteFile w), files := (files w)(name \<mapsto>
                  (case files w name of
                     None \<Rightarrow> \<lparr>contents = d, fileMode = p\<rparr>
                   | Some f \<Rightarrow> f\<lparr>contents := d\<rparr>))\<rparr>)"
  by (auto simp: WriteFile_def Let_def split: option.splits)

lemma WriteFile_Some:
  "WriteFile E name d p w = (Some err, w') \<longleftrightarrow>
     (\<exists>msg. writeFileOutcome E (nWriteFile w) = Some msg \<and> err = WriteFileError msg)
     \<and> w' = w\<lparr>nWriteFile := Suc (nWriteFile w)\<rparr>"
  by (auto simp: WriteFile_def Let_def split: option.splits)

lemma writePem_Inr:
  assumes "writePem E m w = (Inr name, w')" and "m \<noteq> []"
  shows "name \<noteq> []" and "files w name = None"
    and "files w' name = Some \<lparr>contents = m, fileMode = 384\<rparr>"
    and "\<forall>other. other \<noteq> name \<longrightarrow> files w' other = files w other"
    and "deferStack w' = deferStack w"
  using assms
  by (auto simp: writePem_def Let_def Output_def emit_def TempFile_Inr WriteFile_None
      split: prod.splits sum.splits option.splits)

lemma writeKnownHosts_Inr:
  assumes "writeKnownHosts E ls w = (Inr name, w')"
  shows "files w name = None"
    and "files w' name = Some \<lparr>contents = knownHostsFileContents ls @ ''\<newline>'', fileMode = 384\<rparr>"
  using assms
  by (auto simp: writeKnownHosts_def Let_def Output_def emit_def TempFile_Inr WriteFile_None
       split: prod.splits sum.splits option.splits)


subsection \<open>Trimming white space\<close>

text \<open>The encodings of the white-space code points, byte by byte.\<close>

lemma whiteSpace_bytes:
  "whiteSpace =
     [[CHR 0x09], [CHR 0x0A], [CHR 0x0B], [CHR 0x0C], [CHR 0x0D], [CHR 0x20],
      [CHR 0xC2, CHR 0x85], [CHR 0xC2, CHR 0xA0], [CHR 0xE1, CHR 0x9A, CHR 0x80],
      [CHR 0xE2, CHR 0x80, CHR 0x80], [CHR 0xE2, CHR 0x80, CHR 0x81],
      [CHR 0xE2, CHR 0x80, CHR 0x82], [CHR 0xE2, CHR 0x80, CHR 0x83],
      [CHR 0xE2, CHR 0x80, CHR 0x84], [CHR 0xE2, CHR 0x80, CHR 0x85],
      [CHR 0xE2, CHR 0x80, CHR 0x86], [CHR 0xE2, CHR 0x80, CHR 0x87],
      [CHR 0xE2, CHR 0x80, CHR 0x88], [CHR 0xE2, CHR 0x80, CHR 0x89],
      [CHR 0xE2, CHR 0x80, CHR 0x8A], [CHR 0xE2, CHR 0x80, CHR 0xA8],
      [CHR 0xE2, CHR 0x80, CHR 0xA9], [CHR 0xE2, CHR 0x80, CHR 0xAF],
      [CHR 0xE2, CHR 0x81, CHR 0x9F], [CHR 0xE3, CHR 0x80, CHR 0x80]]"
  by (simp add: whiteSpace_def White_Space_def EncodeRune_def char_of_def bit_0)

lemma whiteSpace_not_Nil: "[] \<notin> set whiteSpace"
  unfolding whiteSpace_bytes by simp

lemma leadingSpace_0: "leadingSpace s = 0 \<longleftrightarrow> (\<forall>e \<in> set whiteSpace. \<not> prefix e s)"
proof (cases "find (\<lambda>e. prefix e s) whiteSpace")
  case None
  then have "\<forall>e \<in> set whiteSpace. \<not> prefix e s"
    by (auto simp: find_None_iff)
  then show ?thesis
    using None by (simp add: leadingSpace_def)
next
  case (Some e)
  then have "e \<in> set whiteSpace" and "prefix e s"
    by (auto simp: find_Some_iff)
  moreover from this have "e \<noteq> []"
    using whiteSpace_not_Nil by auto
  ultimately show ?thesis
    using Some by (auto simp: leadingSpace_def)
qed

lemma leadingSpace_pos:
  assumes "leadingSpace s \<noteq> 0"
  shows "\<exists>e \<in> set whiteSpace. s = e @ drop (leadingSpace s) s"
proof -
  obtain e where f: "find (\<lambda>e. prefix e s) whiteSpace = Some e"
    using assms by (auto simp: leadingSpace_def split: option.splits)
  then have "e \<in> set whiteSpace" and p: "prefix e s"
    by (auto simp: find_Some_iff)
  moreover have "leadingSpace s = length e"
    using f by (simp add: leadingSpace_def)
  moreover have "s = e @ drop (length e) s"
    using p by (auto simp: prefix_def)
  ultimately show ?thesis by auto
qed

lemma trailingSpace_0: "trailingSpace s = 0 \<longleftrightarrow> (\<forall>e \<in> set whiteSpace. \<not> suffix e s)"
proof (cases "find (\<lambda>e. suffix e s) whiteSpace")
  case None
  then have "\<forall>e \<in> set whiteSpace. \<not> suffix e s"
    by (auto simp: find_None_iff)
  then show ?thesis
    using None by (simp add: trailingSpace_def)
next
  case (Some e)
  then have "e \<in> set whiteSpace" and "suffix e s"
    by (auto simp: find_Some_iff)
  moreover from this have "e \<noteq> []"
    using whiteSpace_not_Nil by auto
  ultimately show ?thesis
    using Some by (auto simp: trailingSpace_def)
qed

lemma trailingSpace_pos:
  assumes "trailingSpace s \<noteq> 0"
  shows "\<exists>e \<in> set whiteSpace. s = take (length s - trailingSpace s) s @ e"
proof -
  obtain e where f: "find (\<lambda>e. suffix e s) whiteSpace = Some e"
    using assms by (auto simp: trailingSpace_def split: option.splits)
  then have "e \<in> set whiteSpace" and p: "suffix e s"
    by (auto simp: find_Some_iff)
  moreover have "trailingSpace s = length e"
    using f by (simp add: trailingSpace_def)
  moreover have "s = take (length s - length e) s @ e"
    using p by (auto simp: suffix_def)
  ultimately show ?thesis by auto
qed

lemma TrimLeftSpace_split:
  "\<exists>es. set es \<subseteq> set whiteSpace \<and> s = concat es @ TrimLeftSpace s"
proof (induction s rule: TrimLeftSpace.induct)
  case (1 s)
  show ?case
  proof (cases "leadingSpace s = 0")
    case True
    then have "TrimLeftSpace s = s"
      by (subst TrimLeftSpace.simps) simp
    then have "set [] \<subseteq> set whiteSpace \<and> s = concat [] @ TrimLeftSpace s"
      by simp
    then show ?thesis by blast
  next
    case False
    then obtain e where e: "e \<in> set whiteSpace" "s = e @ drop (leadingSpace s) s"
      using leadingSpace_pos by blast
    obtain es where es: "set es \<subseteq> set whiteSpace"
        "drop (leadingSpace s) s = concat es @ TrimLeftSpace (drop (leadingSpace s) s)"
      using 1 [OF False] by blast
    have t: "TrimLeftSpace s = TrimLeftSpace (drop (leadingSpace s) s)"
      using False by (subst TrimLeftSpace.simps) simp
    have "set (e # es) \<subseteq> set whiteSpace \<and> s = concat (e # es) @ TrimLeftSpace s"
      using e es t by (metis append.assoc concat.simps(2) insert_subset list.simps(15))
    then show ?thesis by blast
  qed
qed

lemma TrimLeftSpace_none: "leadingSpace (TrimLeftSpace s) = 0"
proof (induction s rule: TrimLeftSpace.induct)
  case (1 s)
  show ?case
  proof (cases "leadingSpace s = 0")
    case True
    then show ?thesis by (subst TrimLeftSpace.simps) simp
  next
    case False
    then show ?thesis using 1 by (subst TrimLeftSpace.simps) simp
  qed
qed

lemma TrimLeftSpace_id: "leadingSpace s = 0 \<Longrightarrow> TrimLeftSpace s = s"
  by (subst TrimLeftSpace.simps) simp

lemma TrimRightSpace_split:
  "\<exists>es. set es \<subseteq> set whiteSpace \<and> s = TrimRightSpace s @ concat es"
proof (induction s rule: TrimRightSpace.induct)
  case (1 s)
  show ?case
  proof (cases "trailingSpace s = 0")
    case True
    then have "TrimRightSpace s = s"
      by (subst TrimRightSpace.simps) simp
    then have "set [] \<subseteq> set whiteSpace \<and> s = TrimRightSpace s @ concat []"
      by simp
    then show ?thesis by blast
  next
    case False
    let ?t = "take (length s - trailingSpace s) s"
    obtain e where e: "e \<in> set whiteSpace" "s = ?t @ e"
      using False trailingSpace_pos by blast
    obtain es where es: "set es \<subseteq> set whiteSpace" "?t = TrimRightSpace ?t @ concat es"
      using 1 [OF False] by blast
    have t: "TrimRightSpace s = TrimRightSpace ?t"
      using False by (subst TrimRightSpace.simps) simp
    have "s = TrimRightSpace s @ concat (es @ [e])"
      using e(2) es(2) t by (metis append.assoc append_Nil2 concat.simps(1) concat.simps(2) concat_append)
    moreover have "set (es @ [e]) \<subseteq> set whiteSpace"
      using e(1) es(1) by simp
    ultimately show ?thesis by blast
  qed
qed

lemma TrimRightSpace_none: "trailingSpace (TrimRightSpace s) = 0"
proof (induction s rule: TrimRightSpace.induct)
  case (1 s)
  show ?case
  proof (cases "trailingSpace s = 0")
    case True
    then show ?thesis by (subst TrimRightSpace.simps) simp
  next
    case False
    then show ?thesis using 1 by (subst TrimRightSpace.simps) simp
  qed
qed

lemma TrimRightSpace_id: "trailingSpace s = 0 \<Longrightarrow> TrimRightSpace s = s"
  by (subst TrimRightSpace.simps) simp

lemma TrimSpace_split:
  "\<exists>before after. set before \<subseteq> set whiteSpace \<and> set after \<subseteq> set whiteSpace
     \<and> s = concat before @ TrimSpace s @ concat after"
proof -
  obtain b where b: "set b \<subseteq> set whiteSpace" "s = concat b @ TrimLeftSpace s"
    using TrimLeftSpace_split by blast
  obtain a where a: "set a \<subseteq> set whiteSpace"
      "TrimLeftSpace s = TrimRightSpace (TrimLeftSpace s) @ concat a"
    using TrimRightSpace_split by blast
  have "s = concat b @ TrimSpace s @ concat a"
    using b(2) a(2) by (simp add: TrimSpace_def)
  then show ?thesis
    using a(1) b(1) by blast
qed

lemma TrimSpace_no_prefix:
  assumes "e \<in> set whiteSpace"
  shows "\<not> prefix e (TrimSpace s)"
proof
  assume p: "prefix e (TrimSpace s)"
  obtain a where "TrimLeftSpace s = TrimSpace s @ concat a"
    using TrimRightSpace_split [of "TrimLeftSpace s"] by (auto simp: TrimSpace_def)
  then have "prefix e (TrimLeftSpace s)"
    using p by (metis prefix_prefix)
  then show False
    using TrimLeftSpace_none [of s] assms by (simp add: leadingSpace_0)
qed

lemma TrimSpace_no_suffix:
  assumes "e \<in> set whiteSpace"
  shows "\<not> suffix e (TrimSpace s)"
  using TrimRightSpace_none [of "TrimLeftSpace s"] assms
  by (simp add: trailingSpace_0 TrimSpace_def)

lemma TrimSpace_trimmed:
  assumes "\<forall>e \<in> set whiteSpace. \<not> prefix e s \<and> \<not> suffix e s"
  shows "TrimSpace s = s"
proof -
  have "leadingSpace s = 0" and "trailingSpace s = 0"
    using assms by (simp_all add: leadingSpace_0 trailingSpace_0)
  then show ?thesis
    by (simp add: TrimSpace_def TrimLeftSpace_id TrimRightSpace_id)
qed

lemma TrimSpace_idem: "TrimSpace (TrimSpace s) = TrimSpace s"
  using TrimSpace_no_prefix TrimSpace_no_suffix by (intro TrimSpace_trimmed) blast

lemmas TrimSpace_eval =
  TrimSpace_def TrimLeftSpace.simps TrimRightSpace.simps leadingSpace_def trailingSpace_def
  whiteSpace_bytes suffix_to_prefix

lemma Join_lines:
  "ls \<noteq> [] \<Longrightarrow> Join ls sep @ sep = concat (map (\<lambda>l. l @ sep) ls)"
  by (induction ls sep rule: Join.induct) simp_all

subsection \<open>The contents of the known-hosts file\<close>

text \<open>
  C4. The file that \<^verbatim>\<open>writeKnownHosts\<close> returns is new and holds every line trimmed of
  surrounding white space, the lines joined by a line feed, and one line feed after
  them: each trimmed line followed by a line feed. For no lines this is a single line
  feed. A trimmed line \<open>TrimSpace l\<close> is what is left of \<open>l\<close> between a run of
  white-space code points at its start and one at its end, and neither starts nor ends
  with a white-space code point, where white space is Unicode's (the encodings
  \<open>whiteSpace\<close>). A line that neither starts nor ends with white space is trimmed to
  itself, so trimming the lines again changes nothing, and lines that are already
  trimmed are written as they are.
\<close>

theorem writeKnownHosts_contents:
  "(writeKnownHosts E knownHosts w = (Inr name, w') \<longrightarrow>
      files w name = None \<and>
      map_option contents (files w' name) = Some (Join (map TrimSpace knownHosts) ''\<newline>'' @ ''\<newline>''))
   \<and> (knownHosts = [] \<longrightarrow> Join (map TrimSpace knownHosts) ''\<newline>'' @ ''\<newline>'' = ''\<newline>'')
   \<and> (knownHosts \<noteq> [] \<longrightarrow>
        Join (map TrimSpace knownHosts) ''\<newline>'' @ ''\<newline>''
          = concat (map (\<lambda>l. TrimSpace l @ ''\<newline>'') knownHosts))
   \<and> (\<exists>before after. set before \<subseteq> set whiteSpace \<and> set after \<subseteq> set whiteSpace
          \<and> l = concat before @ TrimSpace l @ concat after)
   \<and> (\<forall>e \<in> set whiteSpace. \<not> prefix e (TrimSpace l) \<and> \<not> suffix e (TrimSpace l))
   \<and> ((\<forall>e \<in> set whiteSpace. \<not> prefix e l \<and> \<not> suffix e l) \<longrightarrow> TrimSpace l = l)
   \<and> Join (map TrimSpace (map TrimSpace knownHosts)) ''\<newline>'' = Join (map TrimSpace knownHosts) ''\<newline>''
   \<and> ((\<forall>l \<in> set knownHosts. TrimSpace l = l) \<longrightarrow>
        Join (map TrimSpace knownHosts) ''\<newline>'' = Join knownHosts ''\<newline>'')"
proof (intro conjI impI)
  assume h: "writeKnownHosts E knownHosts w = (Inr name, w')"
  show "files w name = None"
    using writeKnownHosts_Inr(1) [OF h] .
  show "map_option contents (files w' name)
        = Some (Join (map TrimSpace knownHosts) ''\<newline>'' @ ''\<newline>'')"
    using writeKnownHosts_Inr(2) [OF h] by (simp add: knownHostsFileContents_def)
next
  assume "knownHosts = []"
  then show "Join (map TrimSpace knownHosts) ''\<newline>'' @ ''\<newline>'' = ''\<newline>''"
    by simp
next
  assume "knownHosts \<noteq> []"
  then have "map TrimSpace knownHosts \<noteq> []"
    by simp
  then show "Join (map TrimSpace knownHosts) ''\<newline>'' @ ''\<newline>''
          = concat (map (\<lambda>l. TrimSpace l @ ''\<newline>'') knownHosts)"
    by (simp add: Join_lines comp_def)
next
  show "\<exists>before after. set before \<subseteq> set whiteSpace \<and> set after \<subseteq> set whiteSpace
          \<and> l = concat before @ TrimSpace l @ concat after"
    by (rule TrimSpace_split)
next
  show "\<forall>e \<in> set whiteSpace. \<not> prefix e (TrimSpace l) \<and> \<not> suffix e (TrimSpace l)"
    using TrimSpace_no_prefix TrimSpace_no_suffix by blast
next
  assume "\<forall>e \<in> set whiteSpace. \<not> prefix e l \<and> \<not> suffix e l"
  then show "TrimSpace l = l"
    by (rule TrimSpace_trimmed)
next
  have "map TrimSpace (map TrimSpace knownHosts) = map TrimSpace knownHosts"
    by (simp add: TrimSpace_idem)
  then show "Join (map TrimSpace (map TrimSpace knownHosts)) ''\<newline>''
             = Join (map TrimSpace knownHosts) ''\<newline>''"
    by (rule arg_cong)
next
  assume "\<forall>l \<in> set knownHosts. TrimSpace l = l"
  then have "map TrimSpace knownHosts = knownHosts"
    by (simp add: map_idI)
  then show "Join (map TrimSpace knownHosts) ''\<newline>'' = Join knownHosts ''\<newline>''"
    by (rule arg_cong)
qed

text \<open>
  Two lines, the first between a no-break space (U+00A0) and an em space (U+2003), the
  second between ASCII white space; and no lines at all.
\<close>

lemma writeKnownHosts_example:
  "writeKnownHosts exEnv
     [[CHR 0xC2, CHR 0xA0] @ ''h ssh-rsa AAAA'' @ [CHR 0xE2, CHR 0x80, CHR 0x83],
      ''  10.0.0.5 ssh-rsa AAAA \<newline>''] exWorld
   = (Inr ''/tmp/u0'',
      exWorld\<lparr>files := (files exWorld)(''/tmp/u0'' \<mapsto>
                 \<lparr>contents = ''h ssh-rsa AAAA\<newline>10.0.0.5 ssh-rsa AAAA\<newline>'', fileMode = 384\<rparr>),
              trace := [EvTempFile ''/tmp/u0'',
                        EvOutput ''Write known hosts h ssh-rsa AAAA\<newline>10.0.0.5 ssh-rsa AAAA\<newline>'',
                        EvWriteFile ''/tmp/u0''],
              nTempFile := 1, nWriteFile := 1\<rparr>)"
  by (simp add: writeKnownHosts_def knownHostsFileContents_def TempFile_def WriteFile_def
      exEnv_def exWorld_def Let_def showNat.simps emit_def Output_def TrimSpace_eval)

lemma writeKnownHosts_empty_example:
  "writeKnownHosts exEnv [] exWorld
   = (Inr ''/tmp/u0'',
      exWorld\<lparr>files := (files exWorld)(''/tmp/u0'' \<mapsto> \<lparr>contents = ''\<newline>'', fileMode = 384\<rparr>),
              trace := [EvTempFile ''/tmp/u0'', EvOutput ''Write known hosts \<newline>'',
                        EvWriteFile ''/tmp/u0''],
              nTempFile := 1, nWriteFile := 1\<rparr>)"
  by (simp add: writeKnownHosts_def knownHostsFileContents_def TempFile_def WriteFile_def
      exEnv_def exWorld_def Let_def showNat.simps emit_def Output_def)

theorem writeKnownHosts_contents_witness:
  "fst (writeKnownHosts exEnv
     [[CHR 0xC2, CHR 0xA0] @ ''h ssh-rsa AAAA'' @ [CHR 0xE2, CHR 0x80, CHR 0x83],
      ''  10.0.0.5 ssh-rsa AAAA \<newline>''] exWorld) = Inr ''/tmp/u0''
   \<and> files exWorld ''/tmp/u0'' = None
   \<and> Some ''h ssh-rsa AAAA\<newline>10.0.0.5 ssh-rsa AAAA\<newline>''
      = Some (Join (map TrimSpace
          [[CHR 0xC2, CHR 0xA0] @ ''h ssh-rsa AAAA'' @ [CHR 0xE2, CHR 0x80, CHR 0x83],
           ''  10.0.0.5 ssh-rsa AAAA \<newline>'']) ''\<newline>'' @ ''\<newline>'')
   \<and> fst (writeKnownHosts exEnv [] exWorld) = Inr ''/tmp/u0''
   \<and> Some ''\<newline>'' = Some (Join (map TrimSpace []) ''\<newline>'' @ ''\<newline>'')
   \<and> TrimSpace ''h ssh-rsa AAAA'' = ''h ssh-rsa AAAA''"
proof -
  let ?ls = "[[CHR 0xC2, CHR 0xA0] @ ''h ssh-rsa AAAA'' @ [CHR 0xE2, CHR 0x80, CHR 0x83],
              ''  10.0.0.5 ssh-rsa AAAA \<newline>'']"
  let ?w1 = "snd (writeKnownHosts exEnv ?ls exWorld)"
  let ?w2 = "snd (writeKnownHosts exEnv [] exWorld)"
  have r1: "writeKnownHosts exEnv ?ls exWorld = (Inr ''/tmp/u0'', ?w1)"
    using writeKnownHosts_example by simp
  have c1: "map_option contents (files ?w1 ''/tmp/u0'')
            = Some ''h ssh-rsa AAAA\<newline>10.0.0.5 ssh-rsa AAAA\<newline>''"
    using writeKnownHosts_example by simp
  have r2: "writeKnownHosts exEnv [] exWorld = (Inr ''/tmp/u0'', ?w2)"
    by (simp add: writeKnownHosts_empty_example)
  have c2: "map_option contents (files ?w2 ''/tmp/u0'') = Some ''\<newline>''"
    by (simp add: writeKnownHosts_empty_example)
  have t: "\<forall>e \<in> set whiteSpace. \<not> prefix e ''h ssh-rsa AAAA'' \<and> \<not> suffix e ''h ssh-rsa AAAA''"
    by (simp add: whiteSpace_bytes suffix_to_prefix)
  note a = writeKnownHosts_contents [THEN conjunct1, rule_format, OF r1]
  note b = writeKnownHosts_contents [THEN conjunct1, rule_format, OF r2]
  note c = writeKnownHosts_contents [THEN conjunct2, THEN conjunct2, THEN conjunct2,
      THEN conjunct2, THEN conjunct2, THEN conjunct1, THEN mp, OF t]
  have "fst (writeKnownHosts exEnv ?ls exWorld) = Inr ''/tmp/u0''"
    by (metis r1 fst_conv)
  moreover have "fst (writeKnownHosts exEnv [] exWorld) = Inr ''/tmp/u0''"
    by (metis r2 fst_conv)
  moreover have "files exWorld ''/tmp/u0'' = None"
    using a by blast
  moreover have "Some ''h ssh-rsa AAAA\<newline>10.0.0.5 ssh-rsa AAAA\<newline>''
      = Some (Join (map TrimSpace ?ls) ''\<newline>'' @ ''\<newline>'')"
    using c1 [symmetric] a [THEN conjunct2] by (rule trans)
  moreover have "Some ''\<newline>'' = Some (Join (map TrimSpace []) ''\<newline>'' @ ''\<newline>'')"
    using c2 [symmetric] b [THEN conjunct2] by (rule trans)
  ultimately show ?thesis
    using c by blast
qed

subsection \<open>The discovery loop\<close>






















subsection \<open>The two fatal outcomes of the direct discovery\<close>
















subsection \<open>What a run adds to the trace\<close>

lemma keeps_refl: "keeps Q w w"
  by (simp add: keeps_def)

lemma keeps_trans: "keeps Q w w1 \<Longrightarrow> keeps Q w1 w2 \<Longrightarrow> keeps Q w w2"
  by (auto simp: keeps_def)

lemma keeps_emit: "Q e \<Longrightarrow> keeps Q w (emit e w)"
  by (simp add: keeps_def emit_def)

lemma keeps_Output: "\<forall>e. plainEvent e \<longrightarrow> Q e \<Longrightarrow> keeps Q w (Output m w)"
  by (simp add: Output_def keeps_emit)

lemma keeps_deferCall: "keeps Q w (deferCall d w)"
  by (simp add: keeps_def deferCall_def)

lemma keeps_TempFile:
  "\<forall>e. plainEvent e \<longrightarrow> Q e \<Longrightarrow> TempFile E pfx w = (r, w') \<Longrightarrow> keeps Q w w'"
  by (auto simp: TempFile_def Let_def keeps_def emit_def split: sum.splits if_splits)

lemma keeps_WriteFile:
  "\<forall>e. plainEvent e \<longrightarrow> Q e \<Longrightarrow> WriteFile E name d p w = (r, w') \<Longrightarrow> keeps Q w w'"
  by (auto simp: WriteFile_def Let_def keeps_def emit_def split: option.splits)

lemma keeps_Remove: "\<forall>e. plainEvent e \<longrightarrow> Q e \<Longrightarrow> keeps Q w (Remove name w)"
  by (simp add: Remove_def keeps_def emit_def)

lemma keeps_runCommand:
  "\<forall>e. plainEvent e \<longrightarrow> Q e \<Longrightarrow> runCommand E c w = (r, w') \<Longrightarrow> keeps Q w w'"
  by (auto simp: runCommand_def keeps_def emit_def)

lemma keeps_Execute:
  "\<forall>e. plainEvent e \<longrightarrow> Q e \<Longrightarrow> Execute x w = (r, w') \<Longrightarrow> keeps Q w w'"
  by (auto simp: Execute_def keeps_def emit_def)

lemma keeps_writePem:
  "\<forall>e. plainEvent e \<longrightarrow> Q e \<Longrightarrow> writePem E pk w = (r, w') \<Longrightarrow> keeps Q w w'"
  by (auto simp: writePem_def TempFile_def WriteFile_def Let_def keeps_def emit_def Output_def
      split: option.splits sum.splits if_splits)

lemma keeps_writeKnownHosts:
  "\<forall>e. plainEvent e \<longrightarrow> Q e \<Longrightarrow> writeKnownHosts E ls w = (r, w') \<Longrightarrow> keeps Q w w'"
  by (auto simp: writeKnownHosts_def TempFile_def WriteFile_def Let_def keeps_def emit_def
      Output_def split: option.splits sum.splits if_splits)

lemma keeps_renderInventory:
  "\<forall>e. plainEvent e \<longrightarrow> Q e \<Longrightarrow> renderInventory ci p w = (r, w') \<Longrightarrow> keeps Q w w'"
  by (auto simp: renderInventory_def Execute_def Let_def keeps_def emit_def
      split: option.splits sum.splits if_splits)

lemma keeps_writeInventory:
  assumes Q: "\<forall>e. plainEvent e \<longrightarrow> Q e" and r: "writeInventory E ci p w = (r, w')"
  shows "keeps Q w w'"
proof (cases "InventoryFile p = []")
  case False
  then show ?thesis using r by (simp add: writeInventory_def keeps_refl)
next
  case True
  obtain buf w1 where ri: "renderInventory ci p w = (buf, w1)"
    by (cases "renderInventory ci p w")
  have "keeps Q w1 w'"
    using Q r True ri
    by (auto simp: writeInventory_def TempFile_def WriteFile_def Let_def keeps_def emit_def
        Output_def split: option.splits sum.splits if_splits)
  then show ?thesis
    using keeps_renderInventory [OF Q ri] keeps_trans by blast
qed

lemma keeps_stagePem:
  "\<forall>e. plainEvent e \<longrightarrow> Q e \<Longrightarrow> stagePem E pk w = (r, w') \<Longrightarrow> keeps Q w w'"
  using keeps_writePem [of Q E pk w]
  by (auto simp: stagePem_def keeps_def deferCall_def split: if_splits prod.splits sum.splits)

lemma keeps_stageKeys:
  assumes Q: "\<forall>e. plainEvent e \<longrightarrow> Q e" and r: "stageKeys E ci w = (r, w')"
  shows "keeps Q w w'"
  using r
  by (auto simp: stageKeys_def split: prod.splits sum.splits
      dest!: keeps_stagePem [OF Q] intro: keeps_trans)

lemma keeps_stageKnownHosts:
  assumes Q: "\<forall>e. plainEvent e \<longrightarrow> Q e" and r: "stageKnownHosts E kb kt w = (r, w')"
  shows "keeps Q w w'"
  using r
  by (auto simp: stageKnownHosts_def keeps_def deferCall_def split: prod.splits sum.splits
      dest!: keeps_writeKnownHosts [OF Q, unfolded keeps_def])

lemma keeps_runDeferred:
  assumes Q: "\<forall>e. plainEvent e \<longrightarrow> Q e"
  shows "keeps Q w (runDeferred ds w)"
proof (induction ds w rule: runDeferred.induct)
  case (1 w)
  then show ?case by (simp add: keeps_refl)
next
  case (2 name ds w)
  then show ?case
    using keeps_Remove [OF Q, of w name] keeps_trans by fastforce
next
  case (3 ds w)
  then show ?case
    using keeps_emit [of Q EvClose w] Q keeps_trans by fastforce
qed

lemma keeps_returning:
  assumes Q: "\<forall>e. plainEvent e \<longrightarrow> Q e"
  shows "keeps Q (snd rw) (snd (returning rw))"
  using keeps_runDeferred [OF Q, of "(snd rw)\<lparr>deferStack := []\<rparr>" "deferStack (snd rw)"]
  by (simp add: returning_def keeps_def)

lemma keeps_runPlay:
  assumes Q: "\<forall>e. plainEvent e \<longrightarrow> Q e" and T: "\<forall>p. Q (EvToLocalCommand p args s)"
    and r: "runPlay E ci s args p w = (r, w')"
  shows "keeps Q w w'"
proof -
  obtain r1 w1 where wi: "writeInventory E ci p w = (r1, w1)"
    by (cases "writeInventory E ci p w")
  note k1 = keeps_writeInventory [OF Q wi, unfolded keeps_def]
  show ?thesis
    using r wi k1 Q T
    by (auto simp: runPlay_def Let_def keeps_def deferCall_def Output_def emit_def runCommand_def
        split: sum.splits prod.splits option.splits if_splits)
qed

lemma keeps_runPlays:
  assumes Q: "\<forall>e. plainEvent e \<longrightarrow> Q e" and T: "\<forall>p. Q (EvToLocalCommand p args s)"
  shows "runPlays E ci s args ps w = (r, w') \<Longrightarrow> keeps Q w w'"
proof (induction ps arbitrary: w)
  case Nil
  then show ?case by (simp add: keeps_refl)
next
  case (Cons p ps)
  show ?case
  proof (cases "playEnabled p")
    case False
    then show ?thesis using Cons by simp
  next
    case True
    obtain r1 w1 where rp: "runPlay E ci s args p w = (r1, w1)"
      by (cases "runPlay E ci s args p w")
    note k1 = keeps_runPlay [OF Q T rp]
    show ?thesis
    proof (cases r1)
      case None
      then have "runPlays E ci s args ps w1 = (r, w')"
        using Cons.prems True rp by simp
      then show ?thesis using Cons.IH k1 keeps_trans by blast
    next
      case (Some err)
      then have "w' = w1"
        using Cons.prems True rp by simp
      then show ?thesis using k1 by simp
    qed
  qed
qed


lemma validatePlays_Some:
  "validatePlays plays \<noteq> None \<longleftrightarrow>
     (\<exists>p \<in> set plays. length (playHosts p) = 0 \<and> InventoryFile p = [])"
  by (induction plays) auto

lemma validatePlays_error:
  "validatePlays plays = Some err \<Longrightarrow>
   err = Errorf ''Hosts or Inventory file must be specified on each plays attribute when using null_resource''"
  by (induction plays) (auto split: if_splits)

subsection \<open>The certificate directives of the WinRM inventory\<close>

lemma sublist_delim:
  assumes "c \<notin> set N"
  shows "sublist N (a @ c # b) \<longleftrightarrow> sublist N a \<or> sublist N b"
proof
  assume "sublist N (a @ c # b)"
  then consider "sublist N a" | "sublist N (c # b)"
    | x1 x2 where "N = x1 @ x2" "suffix x1 a" "prefix x2 (c # b)"
    unfolding sublist_append by blast
  then show "sublist N a \<or> sublist N b"
  proof cases
    case 1
    then show ?thesis by simp
  next
    case 2
    then have "prefix N (c # b) \<or> sublist N b"
      by (simp add: sublist_Cons_right)
    moreover have "prefix N (c # b) \<Longrightarrow> N = []"
      using assms by (cases N) auto
    ultimately show ?thesis by auto
  next
    case 3
    have "x2 = []"
      using 3(1,3) assms by (cases x2) auto
    then have "suffix N a"
      using 3 by simp
    then show ?thesis by (simp add: suffix_imp_sublist)
  qed
next
  assume "sublist N a \<or> sublist N b"
  then show "sublist N (a @ c # b)"
  proof
    assume "sublist N a"
    then obtain ps ss where "a = ps @ N @ ss"
      by (auto simp: sublist_def)
    then have "a @ c # b = ps @ N @ (ss @ c # b)"
      by simp
    then show ?thesis
      unfolding sublist_def by blast
  next
    assume "sublist N b"
    then obtain ps ss where "b = ps @ N @ ss"
      by (auto simp: sublist_def)
    then have "a @ c # b = (a @ c # ps) @ N @ ss"
      by simp
    then show ?thesis
      unfolding sublist_def by blast
  qed
qed

lemma sublist_set: "sublist N x \<Longrightarrow> set N \<subseteq> set x"
  by (auto simp: sublist_def)

lemma digit_not_a: "k < 10 \<Longrightarrow> ''0123456789'' ! k \<noteq> CHR ''a''"
proof
  assume k: "k < 10" and eq: "''0123456789'' ! k = CHR ''a''"
  have "''0123456789'' ! k \<in> set ''0123456789''"
    using k by (intro nth_mem) simp
  then have "CHR ''a'' \<in> set ''0123456789''"
    unfolding eq .
  then show False by simp
qed

lemma showNat_no_a: "CHR ''a'' \<notin> set (showNat n)"
proof (induction n rule: showNat.induct)
  case (1 n)
  show ?case
  proof (cases "n < 10")
    case True
    then show ?thesis
      using digit_not_a [of n] by (subst showNat.simps) (simp del: nth_Cons_numeral)
  next
    case False
    have "n mod 10 < 10" by simp
    then have "''0123456789'' ! (n mod 10) \<noteq> CHR ''a''"
      by (rule digit_not_a)
    then show ?thesis
      using 1 False by (subst showNat.simps) (simp del: nth_Cons_numeral)
  qed
qed

lemma showInt_no_a: "CHR ''a'' \<in> set N \<Longrightarrow> \<not> sublist N (showInt i)"
proof
  assume a: "CHR ''a'' \<in> set N" and "sublist N (showInt i)"
  then have "CHR ''a'' \<in> set (showInt i)"
    using sublist_set by blast
  then show False
    using showNat_no_a by (auto simp: showInt_def split: if_splits)
qed

lemma sublist_if_end:
  assumes "c \<notin> set N"
  shows "sublist N ((if P then X @ [c] else []) @ rest) \<longleftrightarrow> (P \<and> sublist N X) \<or> sublist N rest"
  using sublist_delim [OF assms, of X rest] by simp

lemma sublist_if_start:
  assumes "c \<notin> set N" and "N \<noteq> []"
  shows "sublist N (A @ (if R then c # Y else [])) \<longleftrightarrow> sublist N A \<or> (R \<and> sublist N Y)"
  using sublist_delim [OF assms(1), of A Y] assms(2) by simp

lemma sublist_if_only:
  assumes "N \<noteq> []"
  shows "sublist N (if P then X else []) \<longleftrightarrow> P \<and> sublist N X"
  using assms by simp

text \<open>The rendering of one WinRM host, cut at its spaces, equals signs and line feeds.\<close>

lemma windows_rendering_cut:
  "windowsInventoryTemplateLocal \<lparr>Windows =
      [\<lparr>WinAnsibleHost = h, ConnectionType = ''winrm'', WinUsername = u,
        WinPassword = pw, WinPort = p, NTLM = n, WinCacert = c\<rparr>]\<rparr>
   = ''[windows]'' @ CHR ''\<newline>'' #
     (if h \<noteq> [] then [] @ CHR '' '' # h else []) @ CHR ''\<newline>'' #
     ''[windows:vars]'' @ CHR ''\<newline>'' #
     ((if u \<noteq> [] then ([] @ CHR '' '' # (''ansible_user'' @ CHR ''='' # u)) @ [CHR ''\<newline>'']
       else []) @
      (((if pw \<noteq> [] then [] @ CHR '' '' # (''ansible_password'' @ CHR ''='' # pw) else []) @
        (if p \<noteq> 0
         then CHR ''\<newline>'' # (([] @ CHR '' '' # (''ansible_port'' @ CHR ''='' # showInt p))
                                @ CHR ''\<newline>'' # [])
         else [])) @ CHR '' '' #
       ((''ansible_connection'' @ CHR ''='' # ''winrm'') @ CHR ''\<newline>'' #
        ((if n then ([] @ CHR ''\<newline>'' #
                       ([] @ CHR '' '' # (''ansible_winrm_transport'' @ CHR ''='' # ''true'')))
                    @ [CHR ''\<newline>'']
          else []) @
         ((if c = []
           then ([] @ CHR '' '' # (''ansible_winrm_server_cert_validation=ignore''
                                   @ CHR ''\<newline>'' # [])) @ [CHR ''\<newline>'']
           else []) @
          ([] @ CHR '' '' # (''ansible_winrm_read_timeout_sec'' @ CHR ''='' # ''900'') @ CHR ''\<newline>'' #
           ([] @ CHR '' '' # (''ansible_winrm_operation_timeout_sec'' @ CHR ''='' # ''800'')
              @ CHR ''\<newline>'' #
            ([] @ CHR ''\<newline>'' #
             (if c \<noteq> [] then [] @ CHR '' '' # (''ansible_winrm_ca_trust_path'' @ CHR ''='' # c
                                  @ CHR ''\<newline>'' # [])
              else [])))))))))"
  by (simp add: windowsInventoryTemplateLocal_def windowsBlock_def split del: if_split cong: if_cong)


lemma sublist_nil: "N \<noteq> [] \<Longrightarrow> sublist N [] \<longleftrightarrow> False"
  by simp

lemma snoc_append: "(X @ [c]) @ rest = X @ c # rest"
  by simp

lemma sublist_delim_Cons:
  assumes "c \<notin> set N" and "N \<noteq> []"
  shows "sublist N (c # b) \<longleftrightarrow> sublist N b"
  using sublist_delim [OF assms(1), of "[]" b] assms(2) by simp

lemma caTrust_tokens:
  "\<not> sublist ''ansible_winrm_ca_trust_path'' ''[windows]''"
  "\<not> sublist ''ansible_winrm_ca_trust_path'' ''[windows:vars]''"
  "\<not> sublist ''ansible_winrm_ca_trust_path'' ''ansible_user''"
  "\<not> sublist ''ansible_winrm_ca_trust_path'' ''ansible_password''"
  "\<not> sublist ''ansible_winrm_ca_trust_path'' ''ansible_port''"
  "\<not> sublist ''ansible_winrm_ca_trust_path'' ''ansible_connection''"
  "\<not> sublist ''ansible_winrm_ca_trust_path'' ''winrm''"
  "\<not> sublist ''ansible_winrm_ca_trust_path'' ''ansible_winrm_transport''"
  "\<not> sublist ''ansible_winrm_ca_trust_path'' ''true''"
  "\<not> sublist ''ansible_winrm_ca_trust_path'' ''ansible_winrm_server_cert_validation=ignore''"
  "\<not> sublist ''ansible_winrm_ca_trust_path'' ''ansible_winrm_read_timeout_sec''"
  "\<not> sublist ''ansible_winrm_ca_trust_path'' ''900''"
  "\<not> sublist ''ansible_winrm_ca_trust_path'' ''ansible_winrm_operation_timeout_sec''"
  "\<not> sublist ''ansible_winrm_ca_trust_path'' ''800''"
  by code_simp+

lemma no_caTrust_without_ca:
  assumes "\<not> sublist ''ansible_winrm_ca_trust_path'' h"
    and "\<not> sublist ''ansible_winrm_ca_trust_path'' u"
    and "\<not> sublist ''ansible_winrm_ca_trust_path'' pw"
  shows "\<not> sublist ''ansible_winrm_ca_trust_path''
           (windowsInventoryTemplateLocal \<lparr>Windows =
              [\<lparr>WinAnsibleHost = h, ConnectionType = ''winrm'', WinUsername = u,
                WinPassword = pw, WinPort = p, NTLM = n, WinCacert = []\<rparr>]\<rparr>)"
proof -
  let ?N = "''ansible_winrm_ca_trust_path''"
  have nl: "CHR ''\<newline>'' \<notin> set ?N" and sp: "CHR '' '' \<notin> set ?N"
    and eq: "CHR ''='' \<notin> set ?N" and ne: "?N \<noteq> []" and a: "CHR ''a'' \<in> set ?N"
    by simp_all
  note port = showInt_no_a [OF a, of p]
  show ?thesis
    by (simp only: windows_rendering_cut sublist_delim [OF nl] sublist_delim [OF sp]
        sublist_delim [OF eq] sublist_if_end [OF nl] sublist_if_start [OF nl ne]
        sublist_if_only [OF ne] sublist_nil [OF ne] snoc_append append_Nil
        sublist_delim_Cons [OF nl ne] sublist_delim_Cons [OF sp ne] caTrust_tokens assms port
        simp_thms if_True if_False)
qed


lemma validation_tokens:
  "\<not> sublist ''ansible_winrm_server_cert_validation'' ''[windows]''"
  "\<not> sublist ''ansible_winrm_server_cert_validation'' ''[windows:vars]''"
  "\<not> sublist ''ansible_winrm_server_cert_validation'' ''ansible_user''"
  "\<not> sublist ''ansible_winrm_server_cert_validation'' ''ansible_password''"
  "\<not> sublist ''ansible_winrm_server_cert_validation'' ''ansible_port''"
  "\<not> sublist ''ansible_winrm_server_cert_validation'' ''ansible_connection''"
  "\<not> sublist ''ansible_winrm_server_cert_validation'' ''winrm''"
  "\<not> sublist ''ansible_winrm_server_cert_validation'' ''ansible_winrm_transport''"
  "\<not> sublist ''ansible_winrm_server_cert_validation'' ''true''"
  "\<not> sublist ''ansible_winrm_server_cert_validation'' ''ansible_winrm_ca_trust_path''"
  "\<not> sublist ''ansible_winrm_server_cert_validation'' ''ansible_winrm_read_timeout_sec''"
  "\<not> sublist ''ansible_winrm_server_cert_validation'' ''900''"
  "\<not> sublist ''ansible_winrm_server_cert_validation'' ''ansible_winrm_operation_timeout_sec''"
  "\<not> sublist ''ansible_winrm_server_cert_validation'' ''800''"
  by code_simp+

lemma no_validation_with_ca:
  assumes "\<not> sublist ''ansible_winrm_server_cert_validation'' h"
    and "\<not> sublist ''ansible_winrm_server_cert_validation'' u"
    and "\<not> sublist ''ansible_winrm_server_cert_validation'' pw"
    and "\<not> sublist ''ansible_winrm_server_cert_validation'' c"
    and c: "c \<noteq> []"
  shows "\<not> sublist ''ansible_winrm_server_cert_validation''
           (windowsInventoryTemplateLocal \<lparr>Windows =
              [\<lparr>WinAnsibleHost = h, ConnectionType = ''winrm'', WinUsername = u,
                WinPassword = pw, WinPort = p, NTLM = n, WinCacert = c\<rparr>]\<rparr>)"
proof -
  let ?N = "''ansible_winrm_server_cert_validation''"
  have nl: "CHR ''\<newline>'' \<notin> set ?N" and sp: "CHR '' '' \<notin> set ?N"
    and eq: "CHR ''='' \<notin> set ?N" and ne: "?N \<noteq> []" and a: "CHR ''a'' \<in> set ?N"
    by simp_all
  note port = showInt_no_a [OF a, of p]
  show ?thesis
    by (simp only: windows_rendering_cut sublist_delim [OF nl] sublist_delim [OF sp]
        sublist_delim [OF eq] sublist_if_end [OF nl] sublist_if_start [OF nl ne]
        sublist_if_only [OF ne] sublist_nil [OF ne] snoc_append append_Nil
        sublist_delim_Cons [OF nl ne] sublist_delim_Cons [OF sp ne] validation_tokens assms port
        simp_thms if_True if_False)
qed

lemma ignore_without_ca:
  "sublist ''ansible_winrm_server_cert_validation=ignore''
     (windowsInventoryTemplateLocal \<lparr>Windows =
        [\<lparr>WinAnsibleHost = h, ConnectionType = ''winrm'', WinUsername = u,
          WinPassword = pw, WinPort = p, NTLM = n, WinCacert = []\<rparr>]\<rparr>)"
proof -
  let ?N = "''ansible_winrm_server_cert_validation=ignore''"
  have nl: "CHR ''\<newline>'' \<notin> set ?N" and sp: "CHR '' '' \<notin> set ?N" and ne: "?N \<noteq> []"
    by simp_all
  have self: "sublist ?N ?N"
    by (rule sublist_order.order_refl)
  show ?thesis
    by (simp only: windows_rendering_cut sublist_delim [OF nl] sublist_delim [OF sp]
        sublist_if_end [OF nl] sublist_if_start [OF nl ne]
        sublist_if_only [OF ne] sublist_nil [OF ne] snoc_append append_Nil
        sublist_delim_Cons [OF nl ne] sublist_delim_Cons [OF sp ne] self
        simp_thms if_True if_False)
qed

lemma caTrust_with_ca:
  assumes "c \<noteq> []"
  shows "sublist ''ansible_winrm_ca_trust_path''
     (windowsInventoryTemplateLocal \<lparr>Windows =
        [\<lparr>WinAnsibleHost = h, ConnectionType = ''winrm'', WinUsername = u,
          WinPassword = pw, WinPort = p, NTLM = n, WinCacert = c\<rparr>]\<rparr>)"
proof -
  let ?N = "''ansible_winrm_ca_trust_path''"
  have nl: "CHR ''\<newline>'' \<notin> set ?N" and sp: "CHR '' '' \<notin> set ?N"
    and eq: "CHR ''='' \<notin> set ?N" and ne: "?N \<noteq> []"
    by simp_all
  have self: "sublist ?N ?N"
    by (rule sublist_order.order_refl)
  show ?thesis
    by (simp only: windows_rendering_cut sublist_delim [OF nl] sublist_delim [OF sp]
        sublist_delim [OF eq] sublist_if_end [OF nl] sublist_if_start [OF nl ne]
        sublist_if_only [OF ne] sublist_nil [OF ne] snoc_append append_Nil
        sublist_delim_Cons [OF nl ne] sublist_delim_Cons [OF sp ne] self assms
        simp_thms if_True if_False)
qed


lemma writeInventory_contents:
  assumes "InventoryFile p = []"
    and "writeInventory E ci p w = (Inr name, w')"
  shows "map_option contents (files w' name) =
           Some (if Type ci = ''ssh''
                 then inventoryTemplateLocal \<lparr>Hosts = sshHosts ci (playHosts p), Groups = playGroups p\<rparr>
                 else if Type ci = ''winrm''
                 then windowsInventoryTemplateLocal \<lparr>Windows = windowsHosts ci\<rparr>
                 else [])"
  using assms
  by (auto simp: writeInventory_def renderInventory_def Execute_def Let_def TempFile_Inr
      WriteFile_None Output_def emit_def split: prod.splits sum.splits option.splits if_splits)

text \<open>
  C6 (as amended). For a WinRM connection whose host, user, password and CA path do not
  themselves contain the name of either directive: without a CA path the rendered
  inventory contains \<^verbatim>\<open>ansible_winrm_server_cert_validation=ignore\<close> and does not
  contain \<^verbatim>\<open>ansible_winrm_ca_trust_path\<close>; with one it contains
  \<^verbatim>\<open>ansible_winrm_ca_trust_path\<close> and does not contain the ignore directive. The file
  that \<^verbatim>\<open>writeInventory\<close> writes holds that rendering.
\<close>

theorem winrm_certificate_directives:
  "Type ci = ''winrm'' \<and> directiveFree (Host ci) \<and> directiveFree (User ci)
     \<and> directiveFree (Password ci) \<and> directiveFree (Cacert ci) \<longrightarrow>
     (Cacert ci = [] \<longrightarrow>
        sublist ignoreDirective (windowsInventoryTemplateLocal \<lparr>Windows = windowsHosts ci\<rparr>)
        \<and> \<not> sublist caTrustDirective (windowsInventoryTemplateLocal \<lparr>Windows = windowsHosts ci\<rparr>))
     \<and> (Cacert ci \<noteq> [] \<longrightarrow>
        sublist caTrustDirective (windowsInventoryTemplateLocal \<lparr>Windows = windowsHosts ci\<rparr>)
        \<and> \<not> sublist ignoreDirective (windowsInventoryTemplateLocal \<lparr>Windows = windowsHosts ci\<rparr>))
     \<and> (InventoryFile p = []
          \<and> writeInventory E ci p w = (Inr name, w') \<longrightarrow>
          map_option contents (files w' name)
            = Some (windowsInventoryTemplateLocal \<lparr>Windows = windowsHosts ci\<rparr>))"
proof (intro impI conjI)
  assume a: "Type ci = ''winrm'' \<and> directiveFree (Host ci) \<and> directiveFree (User ci)
     \<and> directiveFree (Password ci) \<and> directiveFree (Cacert ci)"
  let ?out = "windowsInventoryTemplateLocal \<lparr>Windows = windowsHosts ci\<rparr>"
  have hosts: "windowsHosts ci =
      [\<lparr>WinAnsibleHost = Host ci, ConnectionType = ''winrm'', WinUsername = User ci,
        WinPassword = Password ci, WinPort = Port ci, NTLM = Ntlm ci, WinCacert = Cacert ci\<rparr>]"
    using a by (simp add: windowsHosts_def)
  {
    assume c: "Cacert ci = []"
    show "sublist ignoreDirective ?out"
      unfolding hosts c ignoreDirective_def by (rule ignore_without_ca)
    show "\<not> sublist caTrustDirective ?out"
      unfolding hosts c caTrustDirective_def
      using a by (intro no_caTrust_without_ca) (simp_all add: directiveFree_def)
  }
  {
    assume c: "Cacert ci \<noteq> []"
    show "sublist caTrustDirective ?out"
      unfolding hosts caTrustDirective_def using c by (rule caTrust_with_ca)
    have "\<not> sublist ''ansible_winrm_server_cert_validation'' ?out"
      unfolding hosts using a c by (intro no_validation_with_ca) (simp_all add: directiveFree_def)
    moreover have "sublist ''ansible_winrm_server_cert_validation'' ignoreDirective"
      unfolding ignoreDirective_def by code_simp
    ultimately show "\<not> sublist ignoreDirective ?out"
      using sublist_order.order_trans by blast
  }
  {
    assume "InventoryFile p = []
          \<and> writeInventory E ci p w = (Inr name, w')"
    then show "map_option contents (files w' name) = Some ?out"
      using writeInventory_contents [of p E ci w name w'] a by simp
  }
qed

theorem winrm_certificate_directives_witness:
  "sublist ignoreDirective (windowsInventoryTemplateLocal \<lparr>Windows = windowsHosts winrmCi\<rparr>)
   \<and> \<not> sublist caTrustDirective (windowsInventoryTemplateLocal \<lparr>Windows = windowsHosts winrmCi\<rparr>)
   \<and> sublist caTrustDirective
        (windowsInventoryTemplateLocal \<lparr>Windows = windowsHosts (winrmCi\<lparr>Cacert := ''/tmp/ca.pem''\<rparr>)\<rparr>)
   \<and> \<not> sublist ignoreDirective
        (windowsInventoryTemplateLocal \<lparr>Windows = windowsHosts (winrmCi\<lparr>Cacert := ''/tmp/ca.pem''\<rparr>)\<rparr>)"
proof -
  have f: "directiveFree ''10.0.0.9''" "directiveFree ''Administrator''" "directiveFree ''p@ss''"
    "directiveFree []" "directiveFree ''/tmp/ca.pem''"
    by code_simp+
  have h1: "Type winrmCi = ''winrm'' \<and> directiveFree (Host winrmCi) \<and> directiveFree (User winrmCi)
     \<and> directiveFree (Password winrmCi) \<and> directiveFree (Cacert winrmCi)"
    using f by (simp add: winrmCi_def)
  let ?ca = "winrmCi\<lparr>Cacert := ''/tmp/ca.pem''\<rparr>"
  have h2: "Type ?ca = ''winrm'' \<and> directiveFree (Host ?ca) \<and> directiveFree (User ?ca)
     \<and> directiveFree (Password ?ca) \<and> directiveFree (Cacert ?ca)"
    using f by (simp add: winrmCi_def)
  have c1: "Cacert winrmCi = []" and c2: "Cacert ?ca \<noteq> []"
    by (simp_all add: winrmCi_def)
  from winrm_certificate_directives [rule_format, OF h1, THEN conjunct1, rule_format, OF c1]
       winrm_certificate_directives [rule_format, OF h2, THEN conjunct2, THEN conjunct1,
         rule_format, OF c2]
  show ?thesis
    by blast
qed

text \<open>
  The values are printed as they are: a password with a line feed in it puts the ignore
  directive on a line of its own, next to the CA trust path.
\<close>

theorem winrm_directive_injected:
  "Cacert injectingCi \<noteq> []
   \<and> sublist ignoreDirective
        (windowsInventoryTemplateLocal \<lparr>Windows = windowsHosts injectingCi\<rparr>)"
proof -
  have "windowsInventoryTemplateLocal \<lparr>Windows = windowsHosts injectingCi\<rparr>
        = ''[windows]\<newline> 10.0.0.9\<newline>[windows:vars]\<newline> ansible_user=Administrator\<newline> ansible_password=p\<newline> ''
          @ ignoreDirective
          @ ''\<newline> ansible_port=5986\<newline> ansible_connection=winrm\<newline> ansible_winrm_read_timeout_sec=900\<newline> ansible_winrm_operation_timeout_sec=800\<newline>\<newline> ansible_winrm_ca_trust_path=/tmp/ca.pem\<newline>''"
    by (simp add: windowsInventoryTemplateLocal_def windowsBlock_def windowsHosts_def
        injectingCi_def winrmCi_def showInt_def showNat.simps ignoreDirective_def)
  then have "sublist ignoreDirective
               (windowsInventoryTemplateLocal \<lparr>Windows = windowsHosts injectingCi\<rparr>)"
    by (simp only: sublist_appendI)
  then show ?thesis
    by (simp add: injectingCi_def)
qed

subsection \<open>The hosts of the SSH inventory\<close>





subsection \<open>Staging the credential material\<close>

lemma writePem_empty: "writePem E [] w = (Inr [], w)"
  by (simp add: writePem_def)

lemma writePem_TempFile_fails:
  "m \<noteq> [] \<Longrightarrow> TempFile E (uuidV4 E (nTempFile w)) w = (Inl err, w1) \<Longrightarrow>
   writePem E m w = (Inl err, w1)"
  by (simp add: writePem_def)

lemma writePem_WriteFile_fails:
  "m \<noteq> [] \<Longrightarrow> TempFile E (uuidV4 E (nTempFile w)) w = (Inr name, w1) \<Longrightarrow>
   writeFileOutcome E (nWriteFile w1) = Some msg \<Longrightarrow>
   fst (writePem E m w) = Inl (WriteFileError msg)"
  by (simp add: writePem_def WriteFile_def Let_def Output_def emit_def)

lemma writePem_errors:
  "writePem E m w = (Inl err, w') \<Longrightarrow>
   (\<exists>msg. err = TempFileError msg) \<or> (\<exists>msg. err = WriteFileError msg)"
  by (auto simp: writePem_def Let_def TempFile_Inl WriteFile_Some
      split: if_splits prod.splits sum.splits option.splits)

lemma stagePem_Inl: "stagePem E pk w = (Inl err, w1) \<longleftrightarrow> writePem E pk w = (Inl err, w1)"
  by (auto simp: stagePem_def writePem_empty split: prod.splits sum.splits)

lemma stageKeys_Inl:
  "stageKeys E ci w = (Inl err, w1) \<longleftrightarrow>
     writePem E (BastionPrivateKey ci) w = (Inl err, w1)
     \<or> (\<exists>b wb. stagePem E (BastionPrivateKey ci) w = (Inr b, wb)
           \<and> (writePem E (PrivateKey ci) wb = (Inl err, w1)
               \<or> (\<exists>t wt. stagePem E (PrivateKey ci) wb = (Inr t, wt)
                     \<and> writePem E (Cacert ci) wt = (Inl err, w1))))"
  by (auto simp: stageKeys_def stagePem_Inl [symmetric] split: prod.splits sum.splits)

lemma Run_aborts_on_staging_error:
  assumes "ComputeResource ci \<or> validatePlays plays = None"
    and "stageKeys E ci (w\<lparr>deferStack := []\<rparr>) = (Inl err, w1)"
  shows "Run E ci plays s w = Some (returning (Some err, w1))"
proof -
  have "\<And>s'. provision E ci plays s' (w\<lparr>deferStack := []\<rparr>) = Some (Some err, w1)"
    using assms(2) by (simp add: provision_def)
  then show ?thesis
    using assms(1) by (auto simp: Run_def RunBody_def)
qed

lemma deniesNonOwner_384: "deniesNonOwner 384"
  by (simp add: deniesNonOwner_def)

text \<open>
  What \<^verbatim>\<open>writePem\<close> does. For empty material it returns an empty path and no error and
  leaves the world as it is. For other material a successful call returns the path of
  a file that did not exist before, which then holds the material byte for byte with
  permission bits that give nothing to the group and to others (0600, the mode
  \<^verbatim>\<open>TempFile\<close> creates it with), and no other file changes. When the temporary file
  cannot be created, or the write fails, that error is returned; a failure at any of
  the three keys makes \<^verbatim>\<open>Run\<close> return the error.
\<close>

theorem writePem_stages_material:
  "writePem E [] w = (Inr [], w)
   \<and> (m \<noteq> [] \<and> writePem E m w = (Inr name, w') \<longrightarrow>
        name \<noteq> [] \<and> files w name = None
        \<and> files w' name = Some \<lparr>contents = m, fileMode = 384\<rparr> \<and> deniesNonOwner 384
        \<and> (\<forall>other. other \<noteq> name \<longrightarrow> files w' other = files w other))
   \<and> (m \<noteq> [] \<and> TempFile E (uuidV4 E (nTempFile w)) w = (Inl err, w1) \<longrightarrow>
        writePem E m w = (Inl err, w1))
   \<and> (m \<noteq> [] \<and> TempFile E (uuidV4 E (nTempFile w)) w = (Inr name, w1)
        \<and> writeFileOutcome E (nWriteFile w1) = Some msg \<longrightarrow>
        fst (writePem E m w) = Inl (WriteFileError msg))
   \<and> (writePem E m w = (Inl err, w') \<longrightarrow>
        (\<exists>msg. err = TempFileError msg) \<or> (\<exists>msg. err = WriteFileError msg))
   \<and> (stageKeys E ci w = (Inl err, w1) \<longleftrightarrow>
        writePem E (BastionPrivateKey ci) w = (Inl err, w1)
        \<or> (\<exists>b wb. stagePem E (BastionPrivateKey ci) w = (Inr b, wb)
              \<and> (writePem E (PrivateKey ci) wb = (Inl err, w1)
                  \<or> (\<exists>t wt. stagePem E (PrivateKey ci) wb = (Inr t, wt)
                        \<and> writePem E (Cacert ci) wt = (Inl err, w1)))))
   \<and> ((ComputeResource ci \<or> validatePlays plays = None)
        \<and> stageKeys E ci (w\<lparr>deferStack := []\<rparr>) = (Inl err, w1) \<longrightarrow>
        Run E ci plays s w = Some (returning (Some err, w1)))"
proof (intro conjI impI)
  show "writePem E [] w = (Inr [], w)"
    by (rule writePem_empty)
next
  assume a: "m \<noteq> [] \<and> writePem E m w = (Inr name, w')"
  then have r: "writePem E m w = (Inr name, w')" and m: "m \<noteq> []"
    by simp_all
  show "name \<noteq> []" by (rule writePem_Inr(1) [OF r m])
  show "files w name = None" by (rule writePem_Inr(2) [OF r m])
  show "files w' name = Some \<lparr>contents = m, fileMode = 384\<rparr>" by (rule writePem_Inr(3) [OF r m])
  show "deniesNonOwner 384" by (rule deniesNonOwner_384)
  show "\<forall>other. other \<noteq> name \<longrightarrow> files w' other = files w other"
    by (rule writePem_Inr(4) [OF r m])
next
  assume "m \<noteq> [] \<and> TempFile E (uuidV4 E (nTempFile w)) w = (Inl err, w1)"
  then show "writePem E m w = (Inl err, w1)"
    using writePem_TempFile_fails by blast
next
  assume "m \<noteq> [] \<and> TempFile E (uuidV4 E (nTempFile w)) w = (Inr name, w1)
        \<and> writeFileOutcome E (nWriteFile w1) = Some msg"
  then show "fst (writePem E m w) = Inl (WriteFileError msg)"
    using writePem_WriteFile_fails by blast
next
  assume "writePem E m w = (Inl err, w')"
  then show "(\<exists>msg. err = TempFileError msg) \<or> (\<exists>msg. err = WriteFileError msg)"
    by (rule writePem_errors)
next
  show "stageKeys E ci w = (Inl err, w1) \<longleftrightarrow>
        writePem E (BastionPrivateKey ci) w = (Inl err, w1)
        \<or> (\<exists>b wb. stagePem E (BastionPrivateKey ci) w = (Inr b, wb)
              \<and> (writePem E (PrivateKey ci) wb = (Inl err, w1)
                  \<or> (\<exists>t wt. stagePem E (PrivateKey ci) wb = (Inr t, wt)
                        \<and> writePem E (Cacert ci) wt = (Inl err, w1))))"
    by (rule stageKeys_Inl)
next
  assume "(ComputeResource ci \<or> validatePlays plays = None)
        \<and> stageKeys E ci (w\<lparr>deferStack := []\<rparr>) = (Inl err, w1)"
  then show "Run E ci plays s w = Some (returning (Some err, w1))"
    using Run_aborts_on_staging_error by blast
qed

lemma writePem_example:
  "writePem exEnv ''KEY'' exWorld =
     (Inr ''/tmp/u0'',
      exWorld\<lparr>files := (files exWorld)(''/tmp/u0'' \<mapsto> \<lparr>contents = ''KEY'', fileMode = 384\<rparr>),
              trace := [EvTempFile ''/tmp/u0'',
                        EvOutput (''Writing temprary PEM to '' @ quoted ''/tmp/u0'' @ ''...''),
                        EvWriteFile ''/tmp/u0'', EvOutput ''Ansible inventory written.''],
              nTempFile := 1, nWriteFile := 1\<rparr>)"
  by (simp add: writePem_def TempFile_def WriteFile_def exEnv_def exWorld_def Let_def
      showNat.simps emit_def Output_def quoted_def)

theorem writePem_stages_material_witness:
  "fst (writePem exEnv ''KEY'' exWorld) = Inr ''/tmp/u0''
   \<and> files (snd (writePem exEnv ''KEY'' exWorld)) ''/tmp/u0''
       = Some \<lparr>contents = ''KEY'', fileMode = 384\<rparr>
   \<and> deniesNonOwner 384
   \<and> files exWorld ''/tmp/u0'' = None
   \<and> map_option fst (Run fullDiskEnv exCi [exPlay] exSettings exWorld) = Some (Some (WriteFileError ''no space left on device''))"
proof -
  let ?w' = "snd (writePem exEnv ''KEY'' exWorld)"
  have r: "''KEY'' \<noteq> [] \<and> writePem exEnv ''KEY'' exWorld = (Inr ''/tmp/u0'', ?w')"
    by (simp add: writePem_example)
  note ok = writePem_stages_material [THEN conjunct2, THEN conjunct1, rule_format, OF r]
  \<comment> \<open>the disk is full: the file is created, the write fails\<close>
  let ?w0 = "exWorld\<lparr>deferStack := []\<rparr>"
  have w0: "?w0 = exWorld"
    by (simp add: exWorld_def)
  obtain t1 where t: "TempFile fullDiskEnv (uuidV4 fullDiskEnv (nTempFile exWorld)) exWorld
                      = (Inr ''/tmp/u0'', t1)"
    by (simp add: TempFile_def fullDiskEnv_def exEnv_def exWorld_def Let_def showNat.simps)
  have nw: "nWriteFile t1 = 0"
    using t by (auto simp: TempFile_Inr emit_def exWorld_def)
  have f: "''KEY'' \<noteq> [] \<and> TempFile fullDiskEnv (uuidV4 fullDiskEnv (nTempFile exWorld)) exWorld
              = (Inr ''/tmp/u0'', t1) \<and> writeFileOutcome fullDiskEnv (nWriteFile t1) = Some ''no space left on device''"
    using t nw by (simp add: fullDiskEnv_def)
  note wf = writePem_stages_material [THEN conjunct2, THEN conjunct2, THEN conjunct2,
      THEN conjunct1, rule_format, OF f]
  obtain w1 where p: "writePem fullDiskEnv (PrivateKey exCi) exWorld = (Inl (WriteFileError ''no space left on device''), w1)"
    using wf by (cases "writePem fullDiskEnv ''KEY'' exWorld") (simp add: exCi_def)
  have b: "stagePem fullDiskEnv (BastionPrivateKey exCi) exWorld = (Inr [], exWorld)"
    by (simp add: stagePem_def exCi_def)
  have "stageKeys fullDiskEnv exCi ?w0 = (Inl (WriteFileError ''no space left on device''), w1)"
    unfolding w0
    using writePem_stages_material [THEN conjunct2, THEN conjunct2, THEN conjunct2,
        THEN conjunct2, THEN conjunct2, THEN conjunct1,
        of fullDiskEnv exCi exWorld "WriteFileError ''no space left on device''" w1] p b
    by blast
  moreover have "ComputeResource exCi \<or> validatePlays [exPlay] = None"
    by (simp add: ComputeResource_def exCi_def)
  ultimately have "Run fullDiskEnv exCi [exPlay] exSettings exWorld
                   = Some (returning (Some (WriteFileError ''no space left on device''), w1))"
    using writePem_stages_material [THEN conjunct2, THEN conjunct2, THEN conjunct2,
        THEN conjunct2, THEN conjunct2, THEN conjunct2, rule_format,
        of exCi "[exPlay]" fullDiskEnv exWorld "WriteFileError ''no space left on device''" w1 exSettings]
    by blast
  then have run: "map_option fst (Run fullDiskEnv exCi [exPlay] exSettings exWorld)
                  = Some (Some (WriteFileError ''no space left on device''))"
    by (simp add: returning_def)
  have none: "files exWorld ''/tmp/u0'' = None"
    by (simp add: exWorld_def)
  have "fst (writePem exEnv ''KEY'' exWorld) = Inr ''/tmp/u0''"
    by (simp add: writePem_example)
  then show ?thesis
    using ok run none by blast
qed

text \<open>
  C3. The staged file is to have mode 0400, and line 409 passes 0400 (256) to
  \<^verbatim>\<open>WriteFile\<close>. \<^verbatim>\<open>WriteFile\<close> uses that mode only for a file it creates; this file
  exists already, created by \<^verbatim>\<open>TempFile\<close> at line 402 with mode 0600 (384), and
  keeps it: the key file that \<^verbatim>\<open>writePem\<close> returns is writable by its owner. The rest
  of the claim holds, as the theorem above says.
\<close>

theorem writePem_mode_is_not_0400:
  "fst (writePem exEnv ''KEY'' exWorld) = Inr ''/tmp/u0''
   \<and> map_option fileMode (files (snd (writePem exEnv ''KEY'' exWorld)) ''/tmp/u0'') = Some 384
   \<and> map_option fileMode (files (snd (writePem exEnv ''KEY'' exWorld)) ''/tmp/u0'') \<noteq> Some 256"
  by (simp add: writePem_example)

subsection \<open>A run without a compute resource\<close>

lemma keeps_extends:
  assumes "keeps Q w w'"
  shows "length (trace w) \<le> length (trace w')"
    and "set (drop (length (trace w')) (trace w'')) \<subseteq> set (drop (length (trace w)) (trace w''))"
proof -
  show l: "length (trace w) \<le> length (trace w')"
    using assms by (auto simp: keeps_def)
  show "set (drop (length (trace w')) (trace w'')) \<subseteq> set (drop (length (trace w)) (trace w''))"
    using l by (rule set_drop_subset_set_drop)
qed

lemma keeps_added:
  assumes "keeps Q w w1" and "keeps Q w1 w'"
  shows "set (drop (length (trace w)) (trace w1)) \<subseteq> set (drop (length (trace w)) (trace w'))"
  using assms by (auto simp: keeps_def)

lemma any_event: "\<forall>e. plainEvent e \<longrightarrow> (\<lambda>e. True) e"
  by simp

lemma writePem_fileError: "writePem E m w = (Inl err, w') \<Longrightarrow> fileError err"
  using writePem_errors by fastforce

lemma stageKeys_fileError: "stageKeys E ci w = (Inl err, w') \<Longrightarrow> fileError err"
  by (auto simp: stageKeys_Inl dest: writePem_fileError)

lemma writeKnownHosts_fileError: "writeKnownHosts E ls w = (Inl err, w') \<Longrightarrow> fileError err"
  by (auto simp: writeKnownHosts_def Let_def TempFile_Inl WriteFile_Some
      split: prod.splits sum.splits option.splits)

lemma stageKnownHosts_fileError:
  "stageKnownHosts E kb kt w = (Inl err, w') \<Longrightarrow> fileError err"
  by (auto simp: stageKnownHosts_def split: prod.splits sum.splits
      dest: writeKnownHosts_fileError)

lemma writeInventory_fileError: "writeInventory E ci p w = (Inl err, w') \<Longrightarrow> fileError err"
  by (auto simp: writeInventory_def Let_def TempFile_Inl WriteFile_Some
      split: prod.splits sum.splits option.splits if_splits)

lemma runPlay_error:
  assumes "runPlay E ci s args p w = (Some err, w')"
  shows "fileError err \<or> (\<exists>p1. toLocalCommand E p1 args s = Inl err)
         \<or> (\<exists>n. applyOutcome E n = Some err)"
proof -
  obtain r1 w1 where wi: "writeInventory E ci p w = (r1, w1)"
    by (cases "writeInventory E ci p w")
  show ?thesis
  proof (cases r1)
    case (Inl e)
    then have "err = e"
      using assms wi by (simp add: runPlay_def)
    then show ?thesis
      using writeInventory_fileError wi Inl by blast
  next
    case (Inr f)
    then show ?thesis
      using assms wi
      by (auto simp: runPlay_def Let_def runCommand_def
          split: if_splits sum.splits option.splits prod.splits)
  qed
qed

lemma runPlays_error:
  "runPlays E ci s args ps w = (Some err, w') \<Longrightarrow>
   fileError err \<or> (\<exists>p1. toLocalCommand E p1 args s = Inl err)
   \<or> (\<exists>n. applyOutcome E n = Some err)"
proof (induction ps arbitrary: w)
  case Nil
  then show ?case by simp
next
  case (Cons p ps)
  show ?case
  proof (cases "playEnabled p")
    case False
    then show ?thesis using Cons by simp
  next
    case True
    obtain r1 w1 where rp: "runPlay E ci s args p w = (r1, w1)"
      by (cases "runPlay E ci s args p w")
    show ?thesis
    proof (cases r1)
      case None
      then have "runPlays E ci s args ps w1 = (Some err, w')"
        using Cons.prems True rp by simp
      then show ?thesis by (rule Cons.IH)
    next
      case (Some e)
      then have "e = err"
        using Cons.prems True rp by simp
      then show ?thesis
        using runPlay_error rp Some by blast
    qed
  qed
qed

lemma runPlay_built:
  assumes "runPlay E ci s args p w = (None, w')"
  shows "list_ex (commandOf s p) (drop (length (trace w)) (trace w'))"
proof -
  obtain r1 w1 where wi: "writeInventory E ci p w = (r1, w1)"
    by (cases "writeInventory E ci p w")
  obtain evs where evs: "trace w1 = trace w @ evs"
    using keeps_writeInventory [OF any_event wi] by (auto simp: keeps_def)
  obtain f where r1: "r1 = Inr f"
    using assms wi by (cases r1) (auto simp: runPlay_def)
  show ?thesis
    using assms wi r1 evs
    by (auto simp: runPlay_def Let_def deferCall_def Output_def emit_def runCommand_def
        SetOverrideInventoryFile_def list_ex_iff
        split: if_splits sum.splits option.splits prod.splits)
qed

lemma runPlays_built:
  "runPlays E ci s args ps w = (None, w') \<Longrightarrow>
   \<forall>p \<in> set ps. playEnabled p \<longrightarrow> list_ex (commandOf s p) (drop (length (trace w)) (trace w'))"
proof (induction ps arbitrary: w)
  case Nil
  then show ?case by simp
next
  case (Cons p ps)
  have T: "\<forall>q. (\<lambda>e. True) (EvToLocalCommand q args s)"
    by simp
  show ?case
  proof (cases "playEnabled p")
    case False
    then show ?thesis using Cons by simp
  next
    case True
    obtain r1 w1 where rp: "runPlay E ci s args p w = (r1, w1)"
      by (cases "runPlay E ci s args p w")
    then have r1: "r1 = None"
      using Cons.prems True by (cases r1) simp_all
    then have rest: "runPlays E ci s args ps w1 = (None, w')"
      using Cons.prems True rp by simp
    note k1 = keeps_runPlay [OF any_event T rp]
    note k2 = keeps_runPlays [OF any_event T rest]
    have a: "list_ex (commandOf s p) (drop (length (trace w)) (trace w'))"
      using runPlay_built [of E ci s args p w w1] rp r1 keeps_added [OF k1 k2]
      by (auto simp: list_ex_iff)
    have b: "\<forall>q \<in> set ps. playEnabled q \<longrightarrow>
               list_ex (commandOf s q) (drop (length (trace w)) (trace w'))"
      using Cons.IH [OF rest] keeps_extends(2) [OF k1, of w']
      by (auto simp: list_ex_iff)
    show ?thesis
      using a b by simp
  qed
qed

lemma establishTrust_insecure_result:
  assumes Q: "\<forall>e. plainEvent e \<longrightarrow> Q e" and C: "Q EvConnect"
    and i: "InsecureNoStrictHostKeyChecking s"
  shows "\<exists>r w'. establishTrust E ci s w = Some (r, w') \<and> keeps Q w w'
           \<and> (\<forall>err. r = Inl err \<longrightarrow> connectOutcome E = Inl err)"
  using Q C i
  by (auto simp: establishTrust_def bastionConnect_def trustThroughBastion_def trustDirect_def
      keeps_def emit_def Output_def deferCall_def split: sum.splits)

lemma provision_insecure_result:
  assumes Q: "\<forall>e. plainEvent e \<longrightarrow> Q e" and C: "Q EvConnect"
    and T: "\<forall>p args. Q (EvToLocalCommand p args s)"
    and i: "InsecureNoStrictHostKeyChecking s"
  shows "\<exists>r w'. provision E ci plays s w = Some (r, w') \<and> keeps Q w w'
           \<and> (r = None \<longrightarrow>
                (\<forall>p \<in> set plays. playEnabled p \<longrightarrow>
                   list_ex (commandOf s p) (drop (length (trace w)) (trace w'))))
           \<and> (\<forall>err. r = Some err \<longrightarrow>
                fileError err \<or> connectOutcome E = Inl err
                \<or> (\<exists>p1 args. toLocalCommand E p1 args s = Inl err)
                \<or> (\<exists>n. applyOutcome E n = Some err))"
proof -
  obtain r1 w1 where sk: "stageKeys E ci w = (r1, w1)"
    by (cases "stageKeys E ci w")
  note k1 = keeps_stageKeys [OF Q sk]
  show ?thesis
  proof (cases r1)
    case (Inl err)
    then have "provision E ci plays s w = Some (Some err, w1)"
      using sk by (simp add: provision_def)
    moreover have "fileError err"
      using sk Inl stageKeys_fileError by blast
    ultimately show ?thesis using k1 by auto
  next
    case (Inr files3)
    obtain b t c where f3: "files3 = (b, t, c)"
      by (cases files3)
    let ?ci1 = "ci\<lparr>Cacert := c\<rparr>"
    obtain r2 w2 where et: "establishTrust E ?ci1 s w1 = Some (r2, w2)" and k2: "keeps Q w1 w2"
      and e2: "\<forall>err. r2 = Inl err \<longrightarrow> connectOutcome E = Inl err"
      using establishTrust_insecure_result [OF Q C i] by blast
    have k12: "keeps Q w w2"
      using k1 k2 by (rule keeps_trans)
    show ?thesis
    proof (cases r2)
      case (Inl err)
      then have "provision E ci plays s w = Some (Some err, w2)"
        using sk Inr f3 et by (simp add: provision_def)
      moreover have "connectOutcome E = Inl err"
        using e2 Inl by simp
      ultimately show ?thesis using k12 by auto
    next
      case kh: (Inr khs)
      obtain kt kb where khs: "khs = (kt, kb)"
        by (cases khs)
      obtain r3 w3 where skh: "stageKnownHosts E kb kt w2 = (r3, w3)"
        by (cases "stageKnownHosts E kb kt w2")
      have k13: "keeps Q w w3"
        using k12 keeps_stageKnownHosts [OF Q skh] by (rule keeps_trans)
      show ?thesis
      proof (cases r3)
        case (Inl err)
        then have "provision E ci plays s w = Some (Some err, w3)"
          using sk Inr f3 et kh khs skh by (simp add: provision_def)
        moreover have "fileError err"
          using skh Inl stageKnownHosts_fileError by blast
        ultimately show ?thesis using k13 by auto
      next
        case f2: (Inr files2)
        obtain fb ft where files2: "files2 = (fb, ft)"
          by (cases files2)
        let ?args = "\<lparr>ArgUsername = User ?ci1, ArgPort = Port ?ci1, PemFile = t,
                      KnownHostsFile = ft, BastionKnownHostsFile = fb,
                      ArgBastionHost = BastionHost ?ci1, BastionPemFile = b,
                      ArgBastionPort = BastionPort ?ci1, BastionUsername = BastionUser ?ci1\<rparr>"
        obtain r4 w4 where rp: "runPlays E ?ci1 s ?args plays w3 = (r4, w4)"
          by (cases "runPlays E ?ci1 s ?args plays w3")
        have T': "\<forall>p. Q (EvToLocalCommand p ?args s)"
          using T by blast
        have k14: "keeps Q w w4"
          using k13 keeps_runPlays [OF Q T' rp] by (rule keeps_trans)
        have p: "provision E ci plays s w = Some (r4, w4)"
          using sk Inr f3 et kh khs skh f2 files2 rp
          by (simp add: provision_def Let_def)
        have built: "r4 = None \<longrightarrow>
                (\<forall>p \<in> set plays. playEnabled p \<longrightarrow>
                   list_ex (commandOf s p) (drop (length (trace w)) (trace w4)))"
        proof (intro impI ballI)
          fix q assume "r4 = None" and q: "q \<in> set plays" and en: "playEnabled q"
          then have "list_ex (commandOf s q) (drop (length (trace w3)) (trace w4))"
            using runPlays_built [of E ?ci1 s ?args plays w3 w4] rp by blast
          then show "list_ex (commandOf s q) (drop (length (trace w)) (trace w4))"
            using keeps_extends(2) [OF k13, of w4] by (auto simp: list_ex_iff)
        qed
        have errs: "\<forall>err. r4 = Some err \<longrightarrow>
                fileError err \<or> connectOutcome E = Inl err
                \<or> (\<exists>p1 args. toLocalCommand E p1 args s = Inl err)
                \<or> (\<exists>n. applyOutcome E n = Some err)"
          using runPlays_error [of E ?ci1 s ?args plays w3 _ w4] rp by blast
        show ?thesis
          using p k14 built errs by blast
      qed
    qed
  qed
qed

text \<open>
  C7. In a run without a compute resource (the host of the connection info is empty):
  when some play declares no hosts and no inventory file, \<^verbatim>\<open>Run\<close> returns the
  configuration error and the world is as it was, so nothing was written and nothing
  was sent. Otherwise the settings are overridden so that strict host-key checking
  reports as disabled, and the run is lines 187 to 379 under the overridden settings:
  it returns; what it adds to the trace holds no handshake for a host key and no key
  scan, and every command in it is built from the overridden settings; when it returns
  no error, the command of every enabled play was built, from the overridden settings;
  and an error that it returns is an error of the file system, of the connection to the
  bastion, of a play's command or of the external command, not the configuration error
  of line 180.
\<close>

theorem resourceless_run:
  "Host ci = [] \<longrightarrow>
     ((\<exists>p \<in> set plays. length (playHosts p) = 0 \<and> InventoryFile p = []) \<longrightarrow>
        Run E ci plays s w =
          Some (Some (Errorf ''Hosts or Inventory file must be specified on each plays attribute when using null_resource''),
                w\<lparr>deferStack := []\<rparr>))
     \<and> (\<not> (\<exists>p \<in> set plays. length (playHosts p) = 0 \<and> InventoryFile p = []) \<longrightarrow>
          InsecureNoStrictHostKeyChecking (SetOverrideStrictHostKeyChecking s)
          \<and> Run E ci plays s w = Run E ci plays (SetOverrideStrictHostKeyChecking s) w
          \<and> Run E ci plays s w
              = map_option returning
                  (provision E ci plays (SetOverrideStrictHostKeyChecking s) (w\<lparr>deferStack := []\<rparr>))
          \<and> (\<exists>r w' evs. Run E ci plays s w = Some (r, w')
                \<and> trace w' = trace w @ evs
                \<and> list_all strictCheckingOff evs
                \<and> list_all (builtFrom (SetOverrideStrictHostKeyChecking s)) evs
                \<and> (r = None \<longrightarrow>
                     (\<forall>p \<in> set plays. playEnabled p \<longrightarrow>
                        list_ex (commandOf (SetOverrideStrictHostKeyChecking s) p) evs))
                \<and> (\<forall>err. r = Some err \<longrightarrow>
                     fileError err \<or> connectOutcome E = Inl err
                     \<or> (\<exists>p1 args. toLocalCommand E p1 args (SetOverrideStrictHostKeyChecking s) = Inl err)
                     \<or> (\<exists>n. applyOutcome E n = Some err))))"
proof (intro impI conjI)
  assume h: "Host ci = []"
    and bad: "\<exists>p \<in> set plays. length (playHosts p) = 0 \<and> InventoryFile p = []"
  then obtain err where "validatePlays plays = Some err"
    using validatePlays_Some [of plays] by auto
  then show "Run E ci plays s w =
          Some (Some (Errorf ''Hosts or Inventory file must be specified on each plays attribute when using null_resource''),
                w\<lparr>deferStack := []\<rparr>)"
    using h validatePlays_error [of plays err]
    by (simp add: Run_def RunBody_def ComputeResource_def returning_def)
next
  show "InsecureNoStrictHostKeyChecking (SetOverrideStrictHostKeyChecking s)"
    by (simp add: InsecureNoStrictHostKeyChecking_def SetOverrideStrictHostKeyChecking_def)
next
  assume h: "Host ci = []"
  have "SetOverrideStrictHostKeyChecking (SetOverrideStrictHostKeyChecking s)
        = SetOverrideStrictHostKeyChecking s"
    by (simp add: SetOverrideStrictHostKeyChecking_def)
  then show "Run E ci plays s w = Run E ci plays (SetOverrideStrictHostKeyChecking s) w"
    using h by (cases "validatePlays plays") (simp_all add: Run_def RunBody_def ComputeResource_def)
next
  assume h: "Host ci = []"
    and good: "\<not> (\<exists>p \<in> set plays. length (playHosts p) = 0 \<and> InventoryFile p = [])"
  then have v: "validatePlays plays = None"
    using validatePlays_Some [of plays] by blast
  then show "Run E ci plays s w
              = map_option returning
                  (provision E ci plays (SetOverrideStrictHostKeyChecking s) (w\<lparr>deferStack := []\<rparr>))"
    using h by (simp add: Run_def RunBody_def ComputeResource_def)
next
  assume h: "Host ci = []"
    and good: "\<not> (\<exists>p \<in> set plays. length (playHosts p) = 0 \<and> InventoryFile p = [])"
  then have v: "validatePlays plays = None"
    using validatePlays_Some [of plays] by blast
  let ?s1 = "SetOverrideStrictHostKeyChecking s"
  let ?Q = "\<lambda>e. strictCheckingOff e \<and> builtFrom ?s1 e"
  have i: "InsecureNoStrictHostKeyChecking ?s1"
    by (simp add: InsecureNoStrictHostKeyChecking_def SetOverrideStrictHostKeyChecking_def)
  have Q: "\<forall>e. plainEvent e \<longrightarrow> ?Q e"
  proof (intro allI impI)
    fix e assume "plainEvent e" then show "?Q e" by (cases e) auto
  qed
  have T: "\<forall>p args. ?Q (EvToLocalCommand p args ?s1)"
    using i by simp
  have C: "?Q EvConnect"
    by simp
  let ?w0 = "w\<lparr>deferStack := []\<rparr>"
  obtain r w1 where rb: "provision E ci plays ?s1 ?w0 = Some (r, w1)"
      and k: "keeps ?Q ?w0 w1"
      and built: "r = None \<longrightarrow>
                (\<forall>p \<in> set plays. playEnabled p \<longrightarrow>
                   list_ex (commandOf ?s1 p) (drop (length (trace ?w0)) (trace w1)))"
      and errs: "\<forall>err. r = Some err \<longrightarrow>
                fileError err \<or> connectOutcome E = Inl err
                \<or> (\<exists>p1 args. toLocalCommand E p1 args ?s1 = Inl err)
                \<or> (\<exists>n. applyOutcome E n = Some err)"
    using provision_insecure_result [OF Q C T i, of E ci plays ?w0] by blast
  let ?w' = "snd (returning (r, w1))"
  have k2: "keeps ?Q w1 ?w'"
    using keeps_returning [OF Q, of "(r, w1)"] by simp
  obtain evs where evs: "trace ?w' = trace w @ evs" and all: "list_all ?Q evs"
    using keeps_trans [OF k k2] by (auto simp: keeps_def)
  have run: "Run E ci plays s w = Some (r, ?w')"
    using rb h v by (simp add: Run_def RunBody_def ComputeResource_def returning_def)
  have d: "drop (length (trace w)) (trace ?w') = evs"
    using evs by simp
  have "set (drop (length (trace ?w0)) (trace w1)) \<subseteq> set (drop (length (trace ?w0)) (trace ?w'))"
    using keeps_added [OF k k2] .
  then have sub: "set (drop (length (trace w)) (trace w1)) \<subseteq> set evs"
    using d by simp
  have built': "r = None \<longrightarrow>
                (\<forall>p \<in> set plays. playEnabled p \<longrightarrow> list_ex (commandOf ?s1 p) evs)"
    using built sub by (simp add: list_ex_iff) blast
  have "list_all strictCheckingOff evs" and "list_all (builtFrom ?s1) evs"
    using all by (simp_all add: list_all_iff)
  then show "\<exists>r w' evs. Run E ci plays s w = Some (r, w')
                \<and> trace w' = trace w @ evs
                \<and> list_all strictCheckingOff evs
                \<and> list_all (builtFrom ?s1) evs
                \<and> (r = None \<longrightarrow>
                     (\<forall>p \<in> set plays. playEnabled p \<longrightarrow> list_ex (commandOf ?s1 p) evs))
                \<and> (\<forall>err. r = Some err \<longrightarrow>
                     fileError err \<or> connectOutcome E = Inl err
                     \<or> (\<exists>p1 args. toLocalCommand E p1 args ?s1 = Inl err)
                     \<or> (\<exists>n. applyOutcome E n = Some err))"
    using run evs built' errs by blast
qed

text \<open>
  A run without a compute resource with one play that declares a host: the command is
  built from the overridden settings, and the four temporary files are removed; and the
  same run on a file system on which writes fail.
\<close>

lemma resourceless_example:
  "Run exEnv nullCi [exPlay] exSettings exWorld
   = Some (None,
       exWorld\<lparr>trace :=
         [EvTempFile ''/tmp/u0'', EvOutput ''Writing temprary PEM to '/tmp/u0'...'',
          EvWriteFile ''/tmp/u0'', EvOutput ''Ansible inventory written.'',
          EvOutput ''StrictHostKeyChecking=no specified or set for null_resource, not verifying host keys'',
          EvTempFile ''/tmp/u1'', EvOutput ''Write known hosts \<newline>'', EvWriteFile ''/tmp/u1'',
          EvTempFile ''/tmp/u2'', EvOutput ''Write known hosts \<newline>'', EvWriteFile ''/tmp/u2'',
          EvExecute, EvTempFile ''/tmp/temporary-ansible-inventory3'',
          EvOutput ''Writing temporary ansible inventory to '/tmp/temporary-ansible-inventory3'...'',
          EvWriteFile ''/tmp/temporary-ansible-inventory3'', EvOutput ''Ansible inventory written.'',
          EvToLocalCommand
            (exPlay\<lparr>playOverrideInventoryFile := ''/tmp/temporary-ansible-inventory3''\<rparr>)
            \<lparr>ArgUsername = ''root'', ArgPort = 22, PemFile = ''/tmp/u0'',
             KnownHostsFile = ''/tmp/u2'', BastionKnownHostsFile = ''/tmp/u1'',
             ArgBastionHost = [], BastionPemFile = [], ArgBastionPort = 22,
             BastionUsername = []\<rparr>
            (exSettings\<lparr>overrideStrictHostKeyChecking := True\<rparr>),
          EvOutput ''running local command: ansible-playbook'',
          EvRunCommand ''ansible-playbook'',
          EvRemove ''/tmp/temporary-ansible-inventory3'', EvRemove ''/tmp/u2'',
          EvRemove ''/tmp/u1'', EvRemove ''/tmp/u0''],
         nTempFile := 4, nWriteFile := 4, nApply := 1\<rparr>)"
  by (simp add: eval_defs exEnv_def nullCi_def exCi_def exPlay_def exWorld_def exSettings_def
      SetOverrideStrictHostKeyChecking_def inventoryTemplateLocal_def fun_eq_iff)

lemma resourceless_failing_example:
  "map_option fst (Run fullDiskEnv nullCi [exPlay] exSettings exWorld)
   = Some (Some (WriteFileError ''no space left on device''))"
  by (simp add: eval_defs fullDiskEnv_def exEnv_def nullCi_def exCi_def exPlay_def exWorld_def
      exSettings_def SetOverrideStrictHostKeyChecking_def)

theorem resourceless_run_witness:
  "Run exEnv nullCi [exPlay, emptyPlay] exSettings exWorld =
     Some (Some (Errorf ''Hosts or Inventory file must be specified on each plays attribute when using null_resource''),
           exWorld)
   \<and> (\<exists>w'. Run exEnv nullCi [exPlay] exSettings exWorld = Some (None, w')
          \<and> list_all strictCheckingOff (trace w')
          \<and> list_all (builtFrom (SetOverrideStrictHostKeyChecking exSettings)) (trace w')
          \<and> list_ex (commandOf (SetOverrideStrictHostKeyChecking exSettings) exPlay) (trace w')
          \<and> EvToLocalCommand
                (exPlay\<lparr>playOverrideInventoryFile := ''/tmp/temporary-ansible-inventory3''\<rparr>)
                \<lparr>ArgUsername = ''root'', ArgPort = 22, PemFile = ''/tmp/u0'',
                 KnownHostsFile = ''/tmp/u2'', BastionKnownHostsFile = ''/tmp/u1'',
                 ArgBastionHost = [], BastionPemFile = [], ArgBastionPort = 22,
                 BastionUsername = []\<rparr>
                (exSettings\<lparr>overrideStrictHostKeyChecking := True\<rparr>) \<in> set (trace w')
          \<and> EvRunCommand ''ansible-playbook'' \<in> set (trace w')
          \<and> files w' = files exWorld)
   \<and> (\<exists>w'. Run fullDiskEnv nullCi [exPlay] exSettings exWorld
               = Some (Some (WriteFileError ''no space left on device''), w')
          \<and> fileError (WriteFileError ''no space left on device''))"
proof -
  have h: "Host nullCi = []"
    by (simp add: nullCi_def)
  have bad: "\<exists>p \<in> set [exPlay, emptyPlay]. length (playHosts p) = 0 \<and> InventoryFile p = []"
    by (simp add: emptyPlay_def exPlay_def InventoryFile_def)
  have good: "\<not> (\<exists>p \<in> set [exPlay]. length (playHosts p) = 0 \<and> InventoryFile p = [])"
    by (simp add: exPlay_def)
  have w: "exWorld\<lparr>deferStack := []\<rparr> = exWorld" "trace exWorld = []"
    by (simp_all add: exWorld_def)
  from resourceless_run [rule_format, OF h, THEN conjunct1, rule_format, OF bad,
      of exEnv exSettings exWorld]
  have a: "Run exEnv nullCi [exPlay, emptyPlay] exSettings exWorld =
     Some (Some (Errorf ''Hosts or Inventory file must be specified on each plays attribute when using null_resource''),
           exWorld)"
    unfolding w by simp
  let ?s1 = "SetOverrideStrictHostKeyChecking exSettings"
  from resourceless_run [THEN mp, OF h, THEN conjunct2, THEN mp, OF good,
      THEN conjunct2, THEN conjunct2, THEN conjunct2, of exEnv exSettings exWorld]
  obtain r w' evs where run: "Run exEnv nullCi [exPlay] exSettings exWorld = Some (r, w')"
    and evs: "trace w' = trace exWorld @ evs"
    and off: "list_all strictCheckingOff evs"
    and bf: "list_all (builtFrom ?s1) evs"
    and built: "r = None \<longrightarrow>
                  (\<forall>p \<in> set [exPlay]. playEnabled p \<longrightarrow> list_ex (commandOf ?s1 p) evs)"
    by blast
  have tr: "trace w' = evs"
    using evs w(2) by simp
  have r: "r = None"
    using run resourceless_example by simp
  have en: "playEnabled exPlay"
    by (simp add: exPlay_def)
  have c: "list_ex (commandOf ?s1 exPlay) (trace w')"
    using built r en tr by simp
  have w': "w' = the (map_option snd (Run exEnv nullCi [exPlay] exSettings exWorld))"
    using run by simp
  have ev: "EvToLocalCommand
                (exPlay\<lparr>playOverrideInventoryFile := ''/tmp/temporary-ansible-inventory3''\<rparr>)
                \<lparr>ArgUsername = ''root'', ArgPort = 22, PemFile = ''/tmp/u0'',
                 KnownHostsFile = ''/tmp/u2'', BastionKnownHostsFile = ''/tmp/u1'',
                 ArgBastionHost = [], BastionPemFile = [], ArgBastionPort = 22,
                 BastionUsername = []\<rparr>
                (exSettings\<lparr>overrideStrictHostKeyChecking := True\<rparr>) \<in> set (trace w')"
    unfolding w' resourceless_example by simp
  have rc: "EvRunCommand ''ansible-playbook'' \<in> set (trace w')"
    unfolding w' resourceless_example by simp
  have fs: "files w' = files exWorld"
    unfolding w' resourceless_example by simp
  have b: "\<exists>w'. Run exEnv nullCi [exPlay] exSettings exWorld = Some (None, w')
          \<and> list_all strictCheckingOff (trace w')
          \<and> list_all (builtFrom ?s1) (trace w')
          \<and> list_ex (commandOf ?s1 exPlay) (trace w')
          \<and> EvToLocalCommand
                (exPlay\<lparr>playOverrideInventoryFile := ''/tmp/temporary-ansible-inventory3''\<rparr>)
                \<lparr>ArgUsername = ''root'', ArgPort = 22, PemFile = ''/tmp/u0'',
                 KnownHostsFile = ''/tmp/u2'', BastionKnownHostsFile = ''/tmp/u1'',
                 ArgBastionHost = [], BastionPemFile = [], ArgBastionPort = 22,
                 BastionUsername = []\<rparr>
                (exSettings\<lparr>overrideStrictHostKeyChecking := True\<rparr>) \<in> set (trace w')
          \<and> EvRunCommand ''ansible-playbook'' \<in> set (trace w')
          \<and> files w' = files exWorld"
    using run r off bf c tr ev rc fs by blast
  from resourceless_run [THEN mp, OF h, THEN conjunct2, THEN mp, OF good,
      THEN conjunct2, THEN conjunct2, THEN conjunct2, of fullDiskEnv exSettings exWorld]
  obtain r2 w2 where run2: "Run fullDiskEnv nullCi [exPlay] exSettings exWorld = Some (r2, w2)"
    by blast
  have "r2 = Some (WriteFileError ''no space left on device'')"
    using run2 resourceless_failing_example by simp
  then have c: "\<exists>w'. Run fullDiskEnv nullCi [exPlay] exSettings exWorld
               = Some (Some (WriteFileError ''no space left on device''), w')
          \<and> fileError (WriteFileError ''no space left on device'')"
    using run2 by simp
  show ?thesis
    using a b c by (intro conjI)
qed

subsection \<open>The run at two inputs\<close>

text \<open>
  C8. The removal of a file is deferred after the helper that created it has returned
  its path (lines 194, 204, 214, 320, 326, 342). A helper whose \<^verbatim>\<open>WriteFile\<close> fails
  returns no path, so the file that \<^verbatim>\<open>TempFile\<close> created is never removed: with a
  private key and a file system on which writes fail, \<^verbatim>\<open>Run\<close> returns the write error
  and the empty key file is still there.
\<close>

theorem failed_write_leaves_key_file:
  "map_option (\<lambda>rw. (fst rw, files (snd rw) ''/tmp/u0'', trace (snd rw)))
     (Run fullDiskEnv exCi [exPlay] exSettings exWorld)
   = Some (Some (WriteFileError ''no space left on device''), Some \<lparr>contents = [], fileMode = 384\<rparr>,
           [EvTempFile ''/tmp/u0'',
            EvOutput (''Writing temprary PEM to '' @ quoted ''/tmp/u0'' @ ''...'')])"
  by (simp add: eval_defs fullDiskEnv_def exEnv_def exCi_def exPlay_def exWorld_def)

text \<open>
  A WinRM run without a bastion skips the trust logic: no event, no known-hosts line.
\<close>

lemma winrm_without_bastion_skips_trust:
  assumes "Type ci = ''winrm''" and "\<not> bastionInUse ci"
  shows "establishTrust E ci s w = Some (Inr ([], []), w)"
  using assms by (simp add: establishTrust_def)

text \<open>
  C10. The test for a bastion comes before the test for WinRM (lines 225 and 270): a
  WinRM run with a bastion configured connects to the bastion, scans the target's key
  through it, and produces a known-hosts line for each hop.
\<close>

theorem winrm_run_uses_bastion:
  "map_option (\<lambda>rw. (fst rw, filter networkEvent (trace (snd rw))))
     (Run exEnv winrmBastionCi [exPlay] exSettings exWorld)
   = Some (None, [EvConnect, EvKeyScan ''10.0.0.9'' 5986 10, EvClose])
   \<and> map_option fst (establishTrust exEnv winrmBastionCi exSettings exWorld)
   = Some (Inr ([''10.0.0.9 ssh-rsa AAAA''], [''bastion.example ssh-rsa BBBB'']))"
  by (simp add: eval_defs exEnv_def winrmBastionCi_def winrmCi_def exPlay_def exWorld_def
      exSettings_def windowsInventoryTemplateLocal_def windowsBlock_def windowsHosts_def
      moduleCommand_def)

end
